theory Spec2Isabelle
  imports Main
begin

section \<open>Shard log validator of the fuzzer engine\<close>

text \<open>
  A shallow embedding of \<^verbatim>\<open>src/fuzzer_engine/log_validator.py\<close>: the class
  \<^verbatim>\<open>ShardLogValidator\<close>, its two dataclasses and the pieces of the Python library it
  calls (\<^verbatim>\<open>str\<close>, \<^verbatim>\<open>int\<close>, \<^verbatim>\<open>str.split\<close>, \<^verbatim>\<open>str.strip\<close>, \<^verbatim>\<open>re.search\<close>).
  Python strings are modelled as \<^typ>\<open>string\<close>, so a character is one of 256 code
  points (Latin-1); Python integers are \<^typ>\<open>int\<close>. Exceptions are values: the
  \<^verbatim>\<open>ValueError\<close> of \<^verbatim>\<open>int\<close> is \<open>None\<close> and is caught where the code catches it,
  and the \<^verbatim>\<open>re.error\<close> of a pattern that does not compile, which nothing catches,
  ends the run with \<open>Inl ReError\<close>.
\<close>

subsection \<open>Python strings\<close>

text \<open>\<^verbatim>\<open>str.isspace\<close> on one character: the white space of the first 256 code points.\<close>

definition py_isspace :: "char \<Rightarrow> bool" where
  "py_isspace c =
     (let n = (of_char c :: int)
      in (9 \<le> n \<and> n \<le> 13) \<or> (28 \<le> n \<and> n \<le> 32) \<or> n = 133 \<or> n = 160)"

text \<open>\<^verbatim>\<open>s.strip()\<close>: white space removed at both ends.\<close>

definition strip :: "string \<Rightarrow> string" where
  "strip s = rev (dropWhile py_isspace (rev (dropWhile py_isspace s)))"

text \<open>\<^verbatim>\<open>sub in s\<close> for strings: \<^verbatim>\<open>sub\<close> occurs in \<^verbatim>\<open>s\<close> as a contiguous block.\<close>

primrec starts_with :: "string \<Rightarrow> string \<Rightarrow> bool" where
  "starts_with [] s = True"
| "starts_with (c # cs) s = (case s of [] \<Rightarrow> False | x # xs \<Rightarrow> x = c \<and> starts_with cs xs)"

primrec str_contains :: "string \<Rightarrow> string \<Rightarrow> bool" where
  "str_contains sub [] = (sub = [])"
| "str_contains sub (x # xs) = (starts_with sub (x # xs) \<or> str_contains sub xs)"

text \<open>\<^verbatim>\<open>s.split(sep)\<close> for a one-character separator: never empty, \<^verbatim>\<open>''.split('-') == ['']\<close>.\<close>

primrec split :: "char \<Rightarrow> string \<Rightarrow> string list" where
  "split sep [] = [[]]"
| "split sep (x # xs) =
     (if x = sep then [] # split sep xs
      else (case split sep xs of [] \<Rightarrow> [[x]] | p # ps \<Rightarrow> (x # p) # ps))"

text \<open>\<^verbatim>\<open>str(n)\<close> of an integer: decimal digits, a minus sign for a negative number.\<close>

definition digit_char :: "int \<Rightarrow> char" where
  "digit_char d = ''0123456789'' ! nat d"

function str_digits :: "int \<Rightarrow> string" where
  "str_digits n =
     (if n < 10 then [digit_char n] else str_digits (n div 10) @ [digit_char (n mod 10)])"
  by pat_completeness auto
termination
  by (relation "measure nat") auto

declare str_digits.simps [simp del]

definition str_int :: "int \<Rightarrow> string" where
  "str_int i = (if i < 0 then CHR ''-'' # str_digits (- i) else str_digits i)"

text \<open>
  \<^verbatim>\<open>int(s)\<close> in base 10; \<open>None\<close> stands for the \<^verbatim>\<open>ValueError\<close>. White space around
  the number is dropped, one sign is allowed, and digits may be grouped by single
  underscores. The white space of \<^verbatim>\<open>int\<close> is narrower than that of
  \<^verbatim>\<open>str.strip\<close>: the separators 0x1C to 0x1F are not skipped. A number of more than
  4300 digits is refused (the interpreter's default limit on the conversion).
\<close>

definition int_isspace :: "char \<Rightarrow> bool" where
  "int_isspace c =
     (let n = (of_char c :: int)
      in (9 \<le> n \<and> n \<le> 13) \<or> n = 32 \<or> n = 133 \<or> n = 160)"

definition int_strip :: "string \<Rightarrow> string" where
  "int_strip s = rev (dropWhile int_isspace (rev (dropWhile int_isspace s)))"

definition max_str_digits :: int where
  "max_str_digits = 4300"

definition is_digit :: "char \<Rightarrow> bool" where
  "is_digit c = (let n = (of_char c :: int) in 48 \<le> n \<and> n \<le> 57)"

definition digit_val :: "char \<Rightarrow> int" where
  "digit_val c = of_char c - 48"

text \<open>The digits after the first one: each is a digit, or an underscore followed by a digit.\<close>

fun digits_tail :: "int \<Rightarrow> string \<Rightarrow> int option" where
  "digits_tail acc [] = Some acc"
| "digits_tail acc [c] = (if is_digit c then Some (10 * acc + digit_val c) else None)"
| "digits_tail acc (c # d # cs) =
     (if is_digit c then digits_tail (10 * acc + digit_val c) (d # cs)
      else if c = CHR ''_'' \<and> is_digit d then digits_tail (10 * acc + digit_val d) cs
      else None)"

definition parse_digits :: "string \<Rightarrow> int option" where
  "parse_digits s =
     (case s of [] \<Rightarrow> None
      | c # cs \<Rightarrow>
          if \<not> is_digit c then None
          else if int (length (filter is_digit s)) > max_str_digits then None
          else digits_tail (digit_val c) cs)"

definition py_int :: "string \<Rightarrow> int option" where
  "py_int s =
     (case int_strip s of [] \<Rightarrow> None
      | c # cs \<Rightarrow>
          if c = CHR ''+'' then parse_digits cs
          else if c = CHR ''-'' then map_option uminus (parse_digits cs)
          else parse_digits (c # cs))"

text \<open>
  \<^verbatim>\<open>a or b\<close> on optional integers: \<^verbatim>\<open>None\<close> and \<^verbatim>\<open>0\<close> are both falsy, so the
  left operand is the result only when it is a non-zero integer.
\<close>

definition py_or :: "int option \<Rightarrow> int option \<Rightarrow> int option" where
  "py_or a b = (case a of None \<Rightarrow> b | Some x \<Rightarrow> if x \<noteq> 0 then Some x else b)"

subsection \<open>Regular expressions\<close>

text \<open>
  The patterns of the validator use a small part of Python's \<^verbatim>\<open>re\<close> syntax: literal
  characters, \<^verbatim>\<open>.\<close>, \<^verbatim>\<open>\d\<close>, the class \<^verbatim>\<open>[a-f0-9]\<close>, and the repetitions
  \<^verbatim>\<open>*\<close>, \<^verbatim>\<open>+\<close> and \<^verbatim>\<open>{40}\<close> applied to a single character class. A compiled
  pattern is a list of items matched from left to right.
\<close>

datatype char_class = Lit char | Dot | Digit | HexLower

datatype item = One char_class | Star char_class | Plus char_class

type_synonym regex = "item list"

text \<open>
  Lower case of a character, as \<^verbatim>\<open>re.IGNORECASE\<close> folds it on the first 256 code
  points: the letters A-Z and the accented capitals 0xC0-0xDE (without the
  multiplication sign 0xD7) move up by 32.
\<close>

definition py_lower :: "char \<Rightarrow> char" where
  "py_lower c =
     (let n = (of_char c :: int)
      in if (65 \<le> n \<and> n \<le> 90) \<or> (192 \<le> n \<and> n \<le> 222 \<and> n \<noteq> 215)
         then char_of (n + 32) else c)"

definition fold_case :: "bool \<Rightarrow> char \<Rightarrow> char" where
  "fold_case ic c = (if ic then py_lower c else c)"

text \<open>
  One character against one class; \<open>ic\<close> is the flag \<^verbatim>\<open>re.IGNORECASE\<close>. The dot
  matches everything except a newline.
\<close>

fun class_match :: "bool \<Rightarrow> char_class \<Rightarrow> char \<Rightarrow> bool" where
  "class_match ic (Lit c) x = (fold_case ic x = fold_case ic c)"
| "class_match ic Dot x = (x \<noteq> CHR 0x0A)"
| "class_match ic Digit x = is_digit x"
| "class_match ic HexLower x = (fold_case ic x \<in> set ''abcdef0123456789'')"

text \<open>Does the pattern match at the very start of the string (with backtracking)?\<close>

fun match_here :: "bool \<Rightarrow> regex \<Rightarrow> string \<Rightarrow> bool" where
  "match_here ic [] s = True"
| "match_here ic (One c # r) [] = False"
| "match_here ic (One c # r) (x # xs) = (class_match ic c x \<and> match_here ic r xs)"
| "match_here ic (Star c # r) [] = match_here ic r []"
| "match_here ic (Star c # r) (x # xs) =
     (match_here ic r (x # xs) \<or> (class_match ic c x \<and> match_here ic (Star c # r) xs))"
| "match_here ic (Plus c # r) [] = False"
| "match_here ic (Plus c # r) (x # xs) = (class_match ic c x \<and> match_here ic (Star c # r) xs)"

text \<open>\<^verbatim>\<open>regex.search(line)\<close> is not \<^verbatim>\<open>None\<close>: the pattern matches at some position.\<close>

primrec re_search :: "bool \<Rightarrow> regex \<Rightarrow> string \<Rightarrow> bool" where
  "re_search ic p [] = match_here ic p []"
| "re_search ic p (x # xs) = (match_here ic p (x # xs) \<or> re_search ic p xs)"

definition lits :: "string \<Rightarrow> regex" where
  "lits s = map (\<lambda>c. One (Lit c)) s"

text \<open>
  The two searches with a capture group, \<^verbatim>\<open>re.search(r'<prefix>([a-f0-9]{40})', line)\<close>,
  are made without flags, so they are case-sensitive. The result is \<^verbatim>\<open>match.group(1)\<close>
  of the leftmost match: the 40 characters after the prefix.
\<close>

definition shard_token_regex :: "string \<Rightarrow> regex" where
  "shard_token_regex pre = lits pre @ replicate 40 (One HexLower)"

primrec search_shard_token :: "string \<Rightarrow> string \<Rightarrow> string option" where
  "search_shard_token pre [] =
     (if match_here False (shard_token_regex pre) [] then Some (take 40 (drop (length pre) []))
      else None)"
| "search_shard_token pre (x # xs) =
     (if match_here False (shard_token_regex pre) (x # xs)
      then Some (take 40 (drop (length pre) (x # xs)))
      else search_shard_token pre xs)"

subsection \<open>Data model\<close>

text \<open>
  Modelled from the spec: \<^verbatim>\<open>NodeInfo\<close> and \<^verbatim>\<open>Operation\<close> are imported from
  \<^verbatim>\<open>..models\<close>, which is not among the sources. The fields are the ones the validator
  reads; \<open>cluster_node_id\<close> may be absent; \<open>op_type\<close> is \<^verbatim>\<open>op.type.value\<close>, the
  string value of the operation's enumeration member.
\<close>

record node_info =
  node_id :: string
  host :: string
  port :: int
  cluster_node_id :: "string option"
  shard_id :: int
  role :: string
  log_file :: string

record operation =
  op_type :: string
  target_node :: string

record log_finding =
  f_node_id :: string
  f_shard_id :: int
  severity :: string
  message :: string
  log_line :: string

record log_validation_result =
  success :: bool
  findings :: "log_finding list"
  shards_checked :: nat

text \<open>
  The log files. A path is absent (\<^verbatim>\<open>os.path.exists\<close> is false), present but not
  readable (\<^verbatim>\<open>open\<close> or \<^verbatim>\<open>readlines\<close> raises, which \<^verbatim>\<open>_read_log_tail\<close> catches), or
  holds the lines that \<^verbatim>\<open>readlines\<close> returns. One validation run sees one snapshot.
\<close>

datatype file_state = Absent | Unreadable | Content "string list"

type_synonym filesystem = "string \<Rightarrow> file_state"

definition path_exists :: "filesystem \<Rightarrow> string \<Rightarrow> bool" where
  "path_exists fs p = (fs p \<noteq> Absent)"

text \<open>
  \<^verbatim>\<open>xs[i:]\<close>: a negative index counts from the end and is clipped at the start of
  the list, so \<^verbatim>\<open>xs[-0:]\<close> is the whole list.
\<close>

definition slice_from :: "int \<Rightarrow> 'a list \<Rightarrow> 'a list" where
  "slice_from i xs = (if i < 0 then drop (nat (int (length xs) + i)) xs else drop (nat i) xs)"

definition read_log_tail :: "filesystem \<Rightarrow> string \<Rightarrow> int \<Rightarrow> string list" where
  "read_log_tail fs p lines =
     (case fs p of
        Content all_lines \<Rightarrow>
          if int (length all_lines) > lines then slice_from (- lines) all_lines
          else all_lines
      | _ \<Rightarrow> [])"

definition has_pattern :: "string list \<Rightarrow> regex \<Rightarrow> bool" where
  "has_pattern log_lines pattern = list_ex (re_search True pattern) log_lines"

definition find_all_patterns :: "string list \<Rightarrow> regex \<Rightarrow> string list" where
  "find_all_patterns log_lines pattern = map strip (filter (re_search True pattern) log_lines)"

subsection \<open>The patterns\<close>

definition failover_promotion_patterns :: "regex list" where
  "failover_promotion_patterns =
     [lits ''Failover election won'',
      lits ''configEpoch set to '' @ [Plus Digit] @ lits '' after successful failover'',
      lits ''Failover auth granted'']"

definition failover_error_patterns :: "regex list" where
  "failover_error_patterns =
     [lits ''Failover attempt expired'',
      lits ''Manual failover timed out'',
      lits ''Failover election in progress for epoch 0'']"

definition replication_issue_patterns :: "regex list" where
  "replication_issue_patterns = [lits ''I'm a sub-replica! Reconfiguring myself'']"

text \<open>
  The pattern of the failure-detection check is built at run time,
  \<^verbatim>\<open>f"Marking node {killed_cluster_id}.*as failing.*quorum reached"\<close>, with the
  cluster identifier pasted into the pattern text as it is. An identifier without any
  of the special characters \<^verbatim>\<open>. ^ $ * + ? { } [ ] \ | ( )\<close> is read by
  \<^verbatim>\<open>re.compile\<close> as a run of literals (the cluster's identifiers are 40 hexadecimal
  digits); \<open>quorum_pattern\<close> is the compiled pattern for such an identifier.
\<close>

definition quorum_pattern :: "string \<Rightarrow> regex" where
  "quorum_pattern killed_cluster_id =
     lits ''Marking node '' @ lits killed_cluster_id @ [Star Dot] @ lits ''as failing''
       @ [Star Dot] @ lits ''quorum reached''"

definition quorum_pattern_text :: "string \<Rightarrow> string" where
  "quorum_pattern_text killed_cluster_id =
     ''Marking node '' @ killed_cluster_id @ ''.*as failing.*quorum reached''"

definition re_special :: "char \<Rightarrow> bool" where
  "re_special c = (c \<in> set (''.^$*+?{}[]|()'' @ [CHR 0x5C]))"

text \<open>
  An identifier with a special character makes a pattern text outside the syntax
  modelled above: Python reads it as pattern syntax, or \<^verbatim>\<open>re.compile\<close> raises
  \<^verbatim>\<open>re.error\<close>. What the \<^verbatim>\<open>re\<close> module does with such a text is a parameter of
  the model: \<open>re_lib text\<close> is \<open>None\<close> when
  \<^verbatim>\<open>re.compile(text, re.IGNORECASE)\<close> raises, and otherwise the test
  \<^verbatim>\<open>regex.search(line) is not None\<close> of the compiled pattern. The result of
  compiling is the error or that test.
\<close>

datatype error = ReError

type_synonym re_library = "string \<Rightarrow> (string \<Rightarrow> bool) option"

definition compile_quorum :: "re_library \<Rightarrow> string \<Rightarrow> error + (string \<Rightarrow> bool)" where
  "compile_quorum re_lib killed_cluster_id =
     (if list_all (\<lambda>c. \<not> re_special c) killed_cluster_id
      then Inr (re_search True (quorum_pattern killed_cluster_id))
      else (case re_lib (quorum_pattern_text killed_cluster_id) of
              None \<Rightarrow> Inl ReError
            | Some search \<Rightarrow> Inr search))"

text \<open>
  A line matches the quorum pattern of an identifier when the pattern compiles and its
  search finds a match in the line.
\<close>

definition quorum_match :: "re_library \<Rightarrow> string \<Rightarrow> string \<Rightarrow> bool" where
  "quorum_match re_lib killed_cluster_id line =
     (case compile_quorum re_lib killed_cluster_id of
        Inl e \<Rightarrow> False
      | Inr search \<Rightarrow> search line)"

subsection \<open>Affected shards\<close>

text \<open>
  The three lookup tables built from the topology. A dictionary comprehension keeps the
  last value written for a key. \<^verbatim>\<open>if node.cluster_node_id\<close> drops an absent and an
  empty identifier.
\<close>

definition node_id_to_shard :: "node_info list \<Rightarrow> (string \<rightharpoonup> int)" where
  "node_id_to_shard cluster_nodes =
     foldl (\<lambda>m node. m(node_id node \<mapsto> shard_id node)) Map.empty cluster_nodes"

definition port_to_shard :: "node_info list \<Rightarrow> (string \<rightharpoonup> int)" where
  "port_to_shard cluster_nodes =
     foldl (\<lambda>m node. m(str_int (port node) \<mapsto> shard_id node)) Map.empty cluster_nodes"

definition cluster_id_to_shard :: "node_info list \<Rightarrow> (string \<rightharpoonup> int)" where
  "cluster_id_to_shard cluster_nodes =
     foldl (\<lambda>m node. case cluster_node_id node of
                        None \<Rightarrow> m
                      | Some cid \<Rightarrow> if cid \<noteq> [] then m(cid \<mapsto> shard_id node) else m)
       Map.empty cluster_nodes"

text \<open>
  \<^verbatim>\<open>node_id_to_shard.get(t) or port_to_shard.get(t) or cluster_id_to_shard.get(t)\<close>
\<close>

definition lookup_target :: "node_info list \<Rightarrow> string \<Rightarrow> int option" where
  "lookup_target cluster_nodes t =
     py_or (node_id_to_shard cluster_nodes t)
       (py_or (port_to_shard cluster_nodes t) (cluster_id_to_shard cluster_nodes t))"

definition node_addr :: "node_info \<Rightarrow> string" where
  "node_addr node = host node @ '':'' @ str_int (port node)"

text \<open>
  The body of the loop over the operations in \<^verbatim>\<open>_get_affected_shards\<close>. A target that
  contains \<^verbatim>\<open>shard-\<close> never reaches the lookup tables; the \<^verbatim>\<open>ValueError\<close> of
  \<^verbatim>\<open>int\<close> is caught and the operation adds nothing.
\<close>

definition affected_by_op :: "node_info list \<Rightarrow> int set \<Rightarrow> operation \<Rightarrow> int set" where
  "affected_by_op cluster_nodes affected_shards op =
     (if str_contains ''shard-'' (target_node op) then
        (let parts = split CHR ''-'' (target_node op)
         in if length parts \<ge> 3 \<and> parts ! 0 = ''shard'' then
              (case py_int (parts ! 1) of
                 Some sid \<Rightarrow> insert sid affected_shards
               | None \<Rightarrow> affected_shards)
            else affected_shards)
      else
        (case lookup_target cluster_nodes (target_node op) of
           Some sid \<Rightarrow> insert sid affected_shards
         | None \<Rightarrow> affected_shards))"

definition affected_by_chaos :: "string set \<Rightarrow> int set \<Rightarrow> node_info \<Rightarrow> int set" where
  "affected_by_chaos nodes_killed_by_chaos affected_shards node =
     (if node_addr node \<in> nodes_killed_by_chaos then insert (shard_id node) affected_shards
      else affected_shards)"

definition get_affected_shards ::
  "operation list \<Rightarrow> string set \<Rightarrow> node_info list \<Rightarrow> int set" where
  "get_affected_shards operations nodes_killed_by_chaos cluster_nodes =
     foldl (affected_by_chaos nodes_killed_by_chaos)
       (foldl (affected_by_op cluster_nodes) {} operations) cluster_nodes"

text \<open>\<^verbatim>\<open>_shard_had_failover\<close>: the loop returns at the first failover operation on the shard.\<close>

fun shard_had_failover :: "int \<Rightarrow> operation list \<Rightarrow> node_info list \<Rightarrow> bool" where
  "shard_had_failover sid [] cluster_nodes = False"
| "shard_had_failover sid (op # ops) cluster_nodes =
     (if op_type op \<noteq> ''failover'' then shard_had_failover sid ops cluster_nodes
      else if str_contains ''shard-'' (target_node op) then
        (let parts = split CHR ''-'' (target_node op)
         in if length parts \<ge> 3 \<and> parts ! 0 = ''shard'' then
              (case py_int (parts ! 1) of
                 Some op_shard_id \<Rightarrow>
                   if op_shard_id = sid then True
                   else shard_had_failover sid ops cluster_nodes
               | None \<Rightarrow> shard_had_failover sid ops cluster_nodes)
            else shard_had_failover sid ops cluster_nodes)
      else if lookup_target cluster_nodes (target_node op) = Some sid then True
      else shard_had_failover sid ops cluster_nodes)"

subsection \<open>Failure detection\<close>

text \<open>
  \<^verbatim>\<open>killed_node_ids\<close>, a dictionary from address to cluster identifier. Its items are
  visited in insertion order; writing an existing key keeps the key's place.
\<close>

primrec dict_set :: "'k \<Rightarrow> 'v \<Rightarrow> ('k \<times> 'v) list \<Rightarrow> ('k \<times> 'v) list" where
  "dict_set k v [] = [(k, v)]"
| "dict_set k v (p # ps) = (if fst p = k then (k, v) # ps else p # dict_set k v ps)"

definition record_killed ::
  "string set \<Rightarrow> (string \<times> string) list \<Rightarrow> node_info \<Rightarrow> (string \<times> string) list" where
  "record_killed nodes_killed_by_chaos d node =
     (case cluster_node_id node of
        None \<Rightarrow> d
      | Some cid \<Rightarrow>
          if node_addr node \<in> nodes_killed_by_chaos \<and> cid \<noteq> []
          then dict_set (node_addr node) cid d else d)"

definition killed_node_ids :: "node_info list \<Rightarrow> string set \<Rightarrow> (string \<times> string) list" where
  "killed_node_ids cluster_nodes nodes_killed_by_chaos =
     foldl (record_killed nodes_killed_by_chaos) [] cluster_nodes"

text \<open>
  The inner loop over the topology, for one killed identifier. A killed node and a node
  without a log file are passed over. For any other node \<^verbatim>\<open>_has_pattern\<close> compiles
  the pattern, which may raise, and then tests the lines of the tail; the loop stops
  at the first node with a matching line.
\<close>

fun detected ::
  "re_library \<Rightarrow> filesystem \<Rightarrow> string set \<Rightarrow> string \<Rightarrow> node_info list \<Rightarrow> error + bool" where
  "detected re_lib fs nodes_killed_by_chaos killed_cluster_id [] = Inr False"
| "detected re_lib fs nodes_killed_by_chaos killed_cluster_id (node # rest) =
     (if node_addr node \<in> nodes_killed_by_chaos
      then detected re_lib fs nodes_killed_by_chaos killed_cluster_id rest
      else if \<not> path_exists fs (log_file node)
      then detected re_lib fs nodes_killed_by_chaos killed_cluster_id rest
      else
        (case compile_quorum re_lib killed_cluster_id of
           Inl e \<Rightarrow> Inl e
         | Inr search \<Rightarrow>
             if list_ex search (read_log_tail fs (log_file node) 200) then Inr True
             else detected re_lib fs nodes_killed_by_chaos killed_cluster_id rest))"

definition not_detected_message :: "string \<Rightarrow> string" where
  "not_detected_message killed_addr =
     ''Cluster did not detect failure of killed node '' @ killed_addr @
     '' (no '' @ [CHR 0x22] @ ''quorum reached'' @ [CHR 0x22] @ '' message found)''"

definition not_detected_finding :: "string \<Rightarrow> log_finding" where
  "not_detected_finding killed_addr =
     \<lparr>f_node_id = killed_addr, f_shard_id = - 1, severity = ''error'',
      message = not_detected_message killed_addr, log_line = []\<rparr>"

text \<open>
  The outer loop over the items of \<open>killed_node_ids\<close>; an error of the inner loop
  ends the run.
\<close>

fun detection_findings ::
  "re_library \<Rightarrow> filesystem \<Rightarrow> string set \<Rightarrow> node_info list \<Rightarrow> (string \<times> string) list
     \<Rightarrow> error + log_finding list" where
  "detection_findings re_lib fs nodes_killed_by_chaos cluster_nodes [] = Inr []"
| "detection_findings re_lib fs nodes_killed_by_chaos cluster_nodes
     ((killed_addr, killed_cluster_id) # rest) =
     (case detected re_lib fs nodes_killed_by_chaos killed_cluster_id cluster_nodes of
        Inl e \<Rightarrow> Inl e
      | Inr was_detected \<Rightarrow>
          (case detection_findings re_lib fs nodes_killed_by_chaos cluster_nodes rest of
             Inl e \<Rightarrow> Inl e
           | Inr more_findings \<Rightarrow>
               Inr ((if was_detected then [] else [not_detected_finding killed_addr])
                    @ more_findings)))"

definition validate_failure_detection ::
  "re_library \<Rightarrow> filesystem \<Rightarrow> node_info list \<Rightarrow> string set \<Rightarrow> error + log_finding list" where
  "validate_failure_detection re_lib fs cluster_nodes nodes_killed_by_chaos =
     (if nodes_killed_by_chaos = {} then Inr []
      else detection_findings re_lib fs nodes_killed_by_chaos cluster_nodes
             (killed_node_ids cluster_nodes nodes_killed_by_chaos))"

subsection \<open>Failover validation\<close>

text \<open>
  The first line with a shard token after the given prefix, and the token; the loops over
  the lines stop there (\<^verbatim>\<open>break\<close>).
\<close>

primrec first_shard_token :: "string \<Rightarrow> string list \<Rightarrow> (string \<times> string) option" where
  "first_shard_token pre [] = None"
| "first_shard_token pre (line # rest) =
     (case search_shard_token pre line of
        Some tok \<Rightarrow> Some (line, tok)
      | None \<Rightarrow> first_shard_token pre rest)"

text \<open>The first pass: the cluster's shard tokens, mapped to the harness's shard ids.\<close>

definition valkey_shard_to_our_shard ::
  "filesystem \<Rightarrow> node_info list \<Rightarrow> (string \<rightharpoonup> int)" where
  "valkey_shard_to_our_shard fs affected_nodes =
     foldl (\<lambda>m node.
              let log_lines = (if path_exists fs (log_file node)
                               then read_log_tail fs (log_file node) 500 else [])
              in case first_shard_token ''is now part of shard '' log_lines of
                   Some (line, valkey_shard_id) \<Rightarrow> m(valkey_shard_id \<mapsto> shard_id node)
                 | None \<Rightarrow> m)
       Map.empty affected_nodes"

definition has_promotion :: "string list \<Rightarrow> bool" where
  "has_promotion log_lines = list_ex (has_pattern log_lines) failover_promotion_patterns"

definition no_promotion_finding :: "node_info \<Rightarrow> log_finding" where
  "no_promotion_finding node =
     \<lparr>f_node_id = node_id node, f_shard_id = shard_id node, severity = ''warning'',
      message = ''Primary has no failover promotion messages in recent logs'',
      log_line = []\<rparr>"

definition wrong_shard_finding :: "node_info \<Rightarrow> int \<Rightarrow> string \<Rightarrow> log_finding" where
  "wrong_shard_finding node expected_shard_id line =
     \<lparr>f_node_id = node_id node, f_shard_id = shard_id node, severity = ''error'',
      message = ''Node promoted to wrong shard: expected '' @ str_int (shard_id node) @
                '', got '' @ str_int expected_shard_id,
      log_line = strip line\<rparr>"

definition failover_error_finding :: "node_info \<Rightarrow> string \<Rightarrow> log_finding" where
  "failover_error_finding node matched =
     \<lparr>f_node_id = node_id node, f_shard_id = shard_id node, severity = ''error'',
      message = ''Failover error detected'', log_line = matched\<rparr>"

definition replication_issue_finding :: "node_info \<Rightarrow> string \<Rightarrow> log_finding" where
  "replication_issue_finding node matched =
     \<lparr>f_node_id = node_id node, f_shard_id = shard_id node, severity = ''warning'',
      message = ''Replication topology issue detected'', log_line = matched\<rparr>"

text \<open>
  \<^verbatim>\<open>matches = self._find_all_patterns(log_lines, pattern); if matches: ... matches[0]\<close>,
  for each pattern of a list: one finding for a pattern with a match, made from the
  first match.
\<close>

definition first_match_findings ::
  "(string \<Rightarrow> log_finding) \<Rightarrow> string list \<Rightarrow> regex list \<Rightarrow> log_finding list" where
  "first_match_findings mk log_lines patterns =
     concat (map (\<lambda>pattern. case find_all_patterns log_lines pattern of
                               [] \<Rightarrow> []
                             | m # ms \<Rightarrow> [mk m])
               patterns)"

text \<open>
  The body of the second loop of \<^verbatim>\<open>_validate_failover\<close>, for one node. Nothing in
  the \<^verbatim>\<open>try\<close> block raises on the modelled values (\<^verbatim>\<open>_read_log_tail\<close> catches its
  own errors and the patterns are fixed), so the \<^verbatim>\<open>except\<close> branch has no counterpart.
\<close>

definition validate_node ::
  "filesystem \<Rightarrow> (string \<rightharpoonup> int) \<Rightarrow> node_info \<Rightarrow> log_finding list" where
  "validate_node fs shard_map node =
     (if \<not> path_exists fs (log_file node) then []
      else
        let log_lines = read_log_tail fs (log_file node) 200;
            promotion =
              (if role node = ''primary'' then
                 (if \<not> has_promotion log_lines then [no_promotion_finding node]
                  else
                    (case first_shard_token ''Setting myself to primary in shard '' log_lines of
                       None \<Rightarrow> []
                     | Some (line, promoted_valkey_shard) \<Rightarrow>
                         (case shard_map promoted_valkey_shard of
                            None \<Rightarrow> []
                          | Some expected_shard_id \<Rightarrow>
                              if expected_shard_id \<noteq> shard_id node
                              then [wrong_shard_finding node expected_shard_id line]
                              else [])))
               else []);
            errors =
              (if \<not> has_promotion log_lines
               then first_match_findings (failover_error_finding node) log_lines
                      failover_error_patterns
               else []);
            replication =
              first_match_findings (replication_issue_finding node) log_lines
                replication_issue_patterns
        in promotion @ errors @ replication)"

definition validate_failover :: "filesystem \<Rightarrow> node_info list \<Rightarrow> log_finding list" where
  "validate_failover fs affected_nodes =
     concat (map (validate_node fs (valkey_shard_to_our_shard fs affected_nodes))
               affected_nodes)"

subsection \<open>The validation run\<close>

text \<open>The body of the loop over the affected shards.\<close>

definition validate_shard ::
  "filesystem \<Rightarrow> node_info list \<Rightarrow> operation list \<Rightarrow> int set \<Rightarrow> int \<Rightarrow> log_finding list" where
  "validate_shard fs cluster_nodes operations shards_with_primary_killed sid =
     (let nodes_in_shard = filter (\<lambda>n. shard_id n = sid) cluster_nodes;
          had_explicit_failover = shard_had_failover sid operations cluster_nodes;
          had_primary_killed = (sid \<in> shards_with_primary_killed)
      in if had_explicit_failover \<or> had_primary_killed
         then validate_failover fs nodes_in_shard else [])"

text \<open>
  \<^verbatim>\<open>affected_shards\<close> is a Python set, and \<^verbatim>\<open>for shard_id in affected_shards\<close> visits
  it in the order of its hash table, which the program does not choose. The order is
  an argument of the model: a run of the code is \<open>validate_affected_shards re_lib order \<dots>\<close>
  for an \<open>order\<close> that enumerates the affected shards. The run returns a result
  (\<open>Inr\<close>) or ends with the error raised by the failure-detection check (\<open>Inl\<close>).
\<close>

definition enumerates :: "int list \<Rightarrow> int set \<Rightarrow> bool" where
  "enumerates order S = (distinct order \<and> set order = S)"

definition validate_affected_shards ::
  "re_library \<Rightarrow> int list \<Rightarrow> filesystem \<Rightarrow> node_info list \<Rightarrow> operation list \<Rightarrow> string set
     \<Rightarrow> int set \<Rightarrow> error + log_validation_result" where
  "validate_affected_shards re_lib order fs cluster_nodes operations nodes_killed_by_chaos
     shards_with_primary_killed =
     (let affected_shards = get_affected_shards operations nodes_killed_by_chaos cluster_nodes
      in case validate_failure_detection re_lib fs cluster_nodes nodes_killed_by_chaos of
           Inl e \<Rightarrow> Inl e
         | Inr detection \<Rightarrow>
             (let all_findings =
                    detection @
                    concat (map (validate_shard fs cluster_nodes operations
                                   shards_with_primary_killed) order)
              in Inr \<lparr>success =
                         (length (filter (\<lambda>f. severity f = ''error'') all_findings) = 0),
                       findings = all_findings,
                       shards_checked = card affected_shards\<rparr>))"

subsection \<open>Example clusters\<close>

text \<open>
  A shard of two nodes and a node of shard 0, with the log files used to run the
  validator on concrete inputs below.
\<close>

definition ex_primary :: node_info where
  "ex_primary =
     \<lparr>node_id = ''node-0'', host = ''127.0.0.1'', port = 7000,
      cluster_node_id = Some ''07c37dfeb235213a872192d90877d0cd55635b91'',
      shard_id = 1, role = ''primary'', log_file = ''node-0.log''\<rparr>"

definition ex_replica :: node_info where
  "ex_replica =
     \<lparr>node_id = ''node-1'', host = ''127.0.0.1'', port = 7001,
      cluster_node_id = Some ''e7d1eecce10fd6bb5eb35b9f99a514335d9ba9ca'',
      shard_id = 1, role = ''replica'', log_file = ''node-1.log''\<rparr>"

definition ex_zero :: node_info where
  "ex_zero =
     \<lparr>node_id = ''node-2'', host = ''127.0.0.1'', port = 7002,
      cluster_node_id = Some ''67ed2db8d677e59ec4a4cefb06858cf2a1a89fa1'',
      shard_id = 0, role = ''primary'', log_file = ''node-2.log''\<rparr>"

text \<open>
  A second node at the address of \<open>ex_primary\<close>, with another cluster identifier,
  and a second node with the harness id of \<open>ex_zero\<close>, in shard 1.
\<close>

definition ex_primary_twin :: node_info where
  "ex_primary_twin =
     \<lparr>node_id = ''node-3'', host = ''127.0.0.1'', port = 7000,
      cluster_node_id = Some ''5f2c1ab0d3e94f7786a1b2c3d4e5f60718293a4b'',
      shard_id = 1, role = ''replica'', log_file = ''node-3.log''\<rparr>"

definition ex_zero_twin :: node_info where
  "ex_zero_twin =
     \<lparr>node_id = ''node-2'', host = ''127.0.0.1'', port = 7003,
      cluster_node_id = Some ''9a8b7c6d5e4f30211203f4e5d6c7b8a990817263'',
      shard_id = 1, role = ''replica'', log_file = ''node-4.log''\<rparr>"

text \<open>A node whose harness id is the port string of \<open>ex_replica\<close>.\<close>

definition ex_zero_port_named :: node_info where
  "ex_zero_port_named =
     \<lparr>node_id = ''7001'', host = ''127.0.0.1'', port = 7002,
      cluster_node_id = None, shard_id = 0, role = ''primary'', log_file = ''node-2.log''\<rparr>"

definition ex_failover_op :: "string \<Rightarrow> operation" where
  "ex_failover_op target = \<lparr>op_type = ''failover'', target_node = target\<rparr>"

definition with_file :: "string \<Rightarrow> string list \<Rightarrow> filesystem \<Rightarrow> filesystem" where
  "with_file p ls fs = (\<lambda>q. if q = p then Content ls else fs q)"

definition no_files :: filesystem where
  "no_files = (\<lambda>q. Absent)"

text \<open>
  A library that refuses every pattern text; the identifiers of the examples have no
  special character, so it is never asked.
\<close>

definition ex_re_lib :: re_library where
  "ex_re_lib = (\<lambda>text. None)"

text \<open>The replica's log reports the quorum on the first identifier only.\<close>

definition ex_fs_quorum :: filesystem where
  "ex_fs_quorum =
     with_file ''node-1.log''
        [''2:S 01 Jan 2026 10:00:05.100 * Marking node 07c37dfeb235213a872192d90877d0cd55635b91 () as failing (quorum reached).'' @ [CHR 0x0A]]
        no_files"

text \<open>The killed primary's failure reached quorum in the replica's log, in capitals.\<close>

definition ex_fs_detected :: filesystem where
  "ex_fs_detected =
     with_file ''node-0.log'' [''1:M 01 Jan 2026 10:00:00.000 * Ready to accept connections'' @ [CHR 0x0A]]
     (with_file ''node-1.log''
        [''2:S 01 Jan 2026 10:00:05.100 * MARKING NODE 07c37dfeb235213a872192d90877d0cd55635b91 () AS FAILING (QUORUM REACHED).'' @ [CHR 0x0A],
         ''2:S 01 Jan 2026 10:00:06.200 * Failover election won: I'm the new primary.'' @ [CHR 0x0A]]
        no_files)"

text \<open>One node of the shard won the election, the other logged an expired attempt.\<close>

definition ex_fs_split :: filesystem where
  "ex_fs_split =
     with_file ''node-0.log'' [''1:M 01 Jan 2026 10:00:06.200 * Failover election won: I'm the new primary.'' @ [CHR 0x0A]]
     (with_file ''node-1.log''
        [''2:S 01 Jan 2026 10:00:07.300 # Failover attempt expired'' @ [CHR 0x0A]]
        no_files)"

text \<open>The replica reconfigured itself twice.\<close>

definition ex_fs_churn :: filesystem where
  "ex_fs_churn =
     with_file ''node-1.log''
        [''2:S 01 Jan 2026 10:00:08.000 * I'm a sub-replica! Reconfiguring myself as a replica of 07c3'' @ [CHR 0x0A],
         ''2:S 01 Jan 2026 10:00:09.000 * I'm a sub-replica! Reconfiguring myself as a replica of e7d1'' @ [CHR 0x0A]]
        no_files"

text \<open>
  A shard-formation line, a quorum line and a self-promotion line, each as the cluster
  logs it and with words in capitals.
\<close>

definition ex_formation_line :: string where
  "ex_formation_line =
     ''1:M 01 Jan 2026 10:00:00.000 * Node 07c3 is now part of shard 0123456789abcdef0123456789abcdef01234567''"

definition ex_formation_line_caps :: string where
  "ex_formation_line_caps =
     ''1:M 01 Jan 2026 10:00:00.000 * Node 07c3 IS NOW PART OF SHARD 0123456789abcdef0123456789abcdef01234567''"

definition ex_quorum_line :: string where
  "ex_quorum_line =
     ''2:S 01 Jan 2026 10:00:05.100 * Marking node 07c37dfeb235213a872192d90877d0cd55635b91 () as failing (quorum reached).''"

definition ex_quorum_line_caps :: string where
  "ex_quorum_line_caps =
     ''2:S 01 Jan 2026 10:00:05.100 * MARKING NODE 07C37DFEB235213A872192D90877D0CD55635B91 () AS FAILING (QUORUM REACHED).''"

definition ex_promotion_line :: string where
  "ex_promotion_line =
     ''2:S 01 Jan 2026 10:00:06.300 * Setting myself to primary in shard 0123456789abcdef0123456789abcdef01234567''"

definition ex_promotion_line_caps :: string where
  "ex_promotion_line_caps =
     ''2:S 01 Jan 2026 10:00:06.300 * Setting myself to PRIMARY in shard 0123456789abcdef0123456789abcdef01234567''"

section \<open>Properties\<close>

subsection \<open>The finding sequence of a run\<close>

lemma run_result:
  assumes "validate_affected_shards re_lib order fs cluster_nodes operations killed spk = Inr r"
  shows "\<exists>detection.
           validate_failure_detection re_lib fs cluster_nodes killed = Inr detection \<and>
           findings r =
             detection @ concat (map (validate_shard fs cluster_nodes operations spk) order) \<and>
           success r = (length (filter (\<lambda>f. severity f = ''error'') (findings r)) = 0) \<and>
           shards_checked r = card (get_affected_shards operations killed cluster_nodes)"
  using assms
  by (auto simp: validate_affected_shards_def Let_def split: sum.splits)

lemma detection_findings_set:
  assumes "detection_findings re_lib fs killed nodes kvs = Inr fd" and "f \<in> set fd"
  shows "\<exists>addr. f = not_detected_finding addr"
  using assms
proof (induction kvs arbitrary: fd)
  case Nil
  then show ?case by simp
next
  case (Cons kv kvs)
  obtain k cid where kv: "kv = (k, cid)" by (cases kv)
  from Cons.prems(1) kv obtain d rest
    where rest: "detection_findings re_lib fs killed nodes kvs = Inr rest"
      and fd: "fd = (if d then [] else [not_detected_finding k]) @ rest"
    by (auto split: sum.splits)
  from Cons.prems(2) fd have "f = not_detected_finding k \<or> f \<in> set rest"
    by (auto split: if_splits)
  with Cons.IH [OF rest] show ?case by blast
qed

lemma validate_failure_detection_set:
  assumes "validate_failure_detection re_lib fs cluster_nodes killed = Inr detection"
  shows "\<forall>f \<in> set detection. \<exists>addr. f = not_detected_finding addr"
  using assms
  by (auto simp: validate_failure_detection_def split: if_splits dest: detection_findings_set)

lemma first_match_findings_set:
  "f \<in> set (first_match_findings mk ls ps) \<Longrightarrow> \<exists>m. f = mk m"
  by (auto simp: first_match_findings_def split: list.splits)

lemma validate_node_ids:
  assumes "f \<in> set (validate_node fs shard_map node)"
  shows "f_node_id f = node_id node \<and> f_shard_id f = shard_id node"
  using assms
  by (auto simp: validate_node_def Let_def no_promotion_finding_def wrong_shard_finding_def
        failover_error_finding_def replication_issue_finding_def
      split: if_splits option.splits prod.splits dest!: first_match_findings_set)

lemma validate_failover_ids:
  assumes "f \<in> set (validate_failover fs nodes)"
  shows "\<exists>n \<in> set nodes. f_node_id f = node_id n \<and> f_shard_id f = shard_id n"
  using assms by (auto simp: validate_failover_def dest: validate_node_ids)

lemma validate_shard_ids:
  assumes "f \<in> set (validate_shard fs cluster_nodes operations spk sid)"
  shows "\<exists>n \<in> set cluster_nodes.
           shard_id n = sid \<and> f_node_id f = node_id n \<and> f_shard_id f = sid"
  using assms
  by (auto simp: validate_shard_def Let_def split: if_splits dest!: validate_failover_ids)

lemma read_log_tail_absent:
  "\<not> path_exists fs p \<Longrightarrow> read_log_tail fs p n = []"
  by (simp add: path_exists_def read_log_tail_def)

subsection \<open>Failure detection\<close>

text \<open>
  The inner loop returns whether some node that was not killed has a matching line in
  its tail; the outer loop makes one finding for each item that was not detected.
\<close>

lemma detected_result:
  assumes "detected re_lib fs killed cid nodes = Inr d"
  shows "d = (\<exists>node \<in> set nodes. node_addr node \<notin> killed \<and>
                (\<exists>line \<in> set (read_log_tail fs (log_file node) 200).
                   quorum_match re_lib cid line))"
  using assms
proof (induction nodes)
  case Nil
  then show ?case by simp
next
  case (Cons node rest)
  show ?case
  proof (cases "node_addr node \<in> killed")
    case True
    with Cons show ?thesis by simp
  next
    case alive: False
    show ?thesis
    proof (cases "path_exists fs (log_file node)")
      case False
      with alive Cons show ?thesis by (simp add: read_log_tail_absent)
    next
      case True
      with alive Cons.prems obtain search where c: "compile_quorum re_lib cid = Inr search"
        by (auto split: sum.splits)
      then have m: "quorum_match re_lib cid = search"
        by (simp add: quorum_match_def fun_eq_iff)
      show ?thesis
      proof (cases "list_ex search (read_log_tail fs (log_file node) 200)")
        case True
        with alive \<open>path_exists fs (log_file node)\<close> c Cons.prems m show ?thesis
          by (auto simp: list_ex_iff)
      next
        case False
        with alive \<open>path_exists fs (log_file node)\<close> c Cons m show ?thesis
          by (auto simp: list_ex_iff)
      qed
    qed
  qed
qed

lemma detection_findings_result:
  assumes "detection_findings re_lib fs killed nodes kvs = Inr fd"
  shows "fd = concat (map (\<lambda>(k, cid).
                 if (\<exists>node \<in> set nodes. node_addr node \<notin> killed \<and>
                       (\<exists>line \<in> set (read_log_tail fs (log_file node) 200).
                          quorum_match re_lib cid line))
                 then [] else [not_detected_finding k]) kvs)"
  using assms
proof (induction kvs arbitrary: fd)
  case Nil
  then show ?case by simp
next
  case (Cons kv kvs)
  obtain k cid where kv: "kv = (k, cid)" by (cases kv)
  from Cons.prems kv obtain d rest where d: "detected re_lib fs killed cid nodes = Inr d"
    and rest: "detection_findings re_lib fs killed nodes kvs = Inr rest"
    and fd: "fd = (if d then [] else [not_detected_finding k]) @ rest"
    by (auto split: sum.splits)
  from detected_result [OF d] Cons.IH [OF rest] fd kv show ?case by simp
qed

text \<open>
  The run returns a result when the pattern of every recorded identifier compiles, as it
  does for identifiers without special characters.
\<close>

lemma compile_quorum_plain:
  "list_all (\<lambda>c. \<not> re_special c) cid \<Longrightarrow>
     compile_quorum re_lib cid = Inr (re_search True (quorum_pattern cid))"
  by (simp add: compile_quorum_def)

lemma quorum_match_plain:
  "list_all (\<lambda>c. \<not> re_special c) cid \<Longrightarrow>
     list_ex (quorum_match re_lib cid) log_lines = has_pattern log_lines (quorum_pattern cid)"
proof -
  assume "list_all (\<lambda>c. \<not> re_special c) cid"
  then have "quorum_match re_lib cid = re_search True (quorum_pattern cid)"
    by (simp add: quorum_match_def compile_quorum_plain fun_eq_iff)
  then show ?thesis by (simp add: has_pattern_def)
qed

lemma detected_returns:
  assumes "compile_quorum re_lib cid = Inr search"
  shows "\<exists>d. detected re_lib fs killed cid nodes = Inr d"
  using assms by (induction nodes) auto

lemma detection_findings_returns:
  assumes "\<forall>(a, c) \<in> set kvs. \<exists>search. compile_quorum re_lib c = Inr search"
  shows "\<exists>fd. detection_findings re_lib fs killed nodes kvs = Inr fd"
  using assms
proof (induction kvs)
  case Nil
  then show ?case by simp
next
  case (Cons kv kvs)
  obtain k cid where kv: "kv = (k, cid)" by (cases kv)
  with Cons.prems obtain search where "compile_quorum re_lib cid = Inr search" by auto
  from detected_returns [OF this]
  obtain d where d: "detected re_lib fs killed cid nodes = Inr d" by blast
  from Cons obtain fd where "detection_findings re_lib fs killed nodes kvs = Inr fd" by auto
  with d kv show ?case by simp
qed

lemma run_returns:
  assumes "\<forall>(a, c) \<in> set (killed_node_ids cluster_nodes killed).
             \<exists>search. compile_quorum re_lib c = Inr search"
  shows "\<exists>r. validate_affected_shards re_lib order fs cluster_nodes operations killed spk = Inr r"
proof -
  from detection_findings_returns [OF assms, of fs killed cluster_nodes]
  have "\<exists>fd. validate_failure_detection re_lib fs cluster_nodes killed = Inr fd"
    by (simp add: validate_failure_detection_def)
  then show ?thesis by (auto simp: validate_affected_shards_def Let_def)
qed

text \<open>
  The dictionary \<open>killed_node_ids\<close> has one item per address. Each item comes from a
  killed node of the topology with a non-empty cluster identifier. A later node at the
  same address with an identifier of its own replaces the item; the item of a node
  stays when no later node does so.
\<close>

lemma dict_set_keys:
  "set (map fst (dict_set k v d)) = insert k (set (map fst d))"
  by (induction d) auto

lemma dict_set_distinct:
  "distinct (map fst d) \<Longrightarrow> distinct (map fst (dict_set k v d))"
  by (induction d) (auto simp: dict_set_keys simp del: set_map)

lemma dict_set_entry:
  "(a, c) \<in> set (dict_set k v d) \<Longrightarrow> (a, c) = (k, v) \<or> (a, c) \<in> set d"
  by (induction d) (auto split: if_splits)

lemma dict_set_mem: "(k, v) \<in> set (dict_set k v d)"
  by (induction d) auto

lemma dict_set_other: "(a, c) \<in> set d \<Longrightarrow> a \<noteq> k \<Longrightarrow> (a, c) \<in> set (dict_set k v d)"
  by (induction d) auto

lemma killed_node_ids_distinct:
  "distinct (map fst (killed_node_ids cluster_nodes killed))"
proof -
  have "distinct (map fst d) \<Longrightarrow>
        distinct (map fst (foldl (record_killed killed) d cluster_nodes))" for d
    by (induction cluster_nodes arbitrary: d)
       (auto simp: record_killed_def dict_set_distinct split: option.splits)
  then show ?thesis by (simp add: killed_node_ids_def)
qed

lemma record_killed_entry:
  assumes "(a, c) \<in> set (record_killed killed d n)"
  shows "(a, c) \<in> set d \<or>
         (node_addr n = a \<and> a \<in> killed \<and> cluster_node_id n = Some c \<and> c \<noteq> [])"
  using assms
  by (auto simp: record_killed_def split: option.splits if_splits dest: dict_set_entry)

lemma killed_node_ids_sound:
  assumes "(a, c) \<in> set (killed_node_ids cluster_nodes killed)"
  shows "\<exists>n \<in> set cluster_nodes.
           node_addr n = a \<and> a \<in> killed \<and> cluster_node_id n = Some c \<and> c \<noteq> []"
proof -
  have "(a, c) \<in> set (foldl (record_killed killed) d cluster_nodes) \<Longrightarrow>
        (a, c) \<in> set d \<or>
        (\<exists>n \<in> set cluster_nodes.
           node_addr n = a \<and> a \<in> killed \<and> cluster_node_id n = Some c \<and> c \<noteq> [])" for d
  proof (induction cluster_nodes arbitrary: d)
    case Nil
    then show ?case by simp
  next
    case (Cons n ns)
    from Cons.prems
    have "(a, c) \<in> set (foldl (record_killed killed) (record_killed killed d n) ns)"
      by simp
    from Cons.IH [OF this] show ?case
      by (auto dest: record_killed_entry)
  qed
  from this [of "[]"] assms show ?thesis by (simp add: killed_node_ids_def)
qed

lemma record_killed_keeps:
  assumes "(a, c) \<in> set d"
    and "node_addr n = a \<longrightarrow> cluster_node_id n = None \<or> cluster_node_id n = Some []"
  shows "(a, c) \<in> set (record_killed killed d n)"
  using assms by (auto simp: record_killed_def dict_set_other split: option.splits)

lemma foldl_record_killed_keeps:
  assumes "(a, c) \<in> set d"
    and "\<forall>m \<in> set ns. node_addr m = a \<longrightarrow>
           cluster_node_id m = None \<or> cluster_node_id m = Some []"
  shows "(a, c) \<in> set (foldl (record_killed killed) d ns)"
  using assms
proof (induction ns arbitrary: d)
  case Nil
  then show ?case by simp
next
  case (Cons m ms)
  from Cons.prems have "(a, c) \<in> set (record_killed killed d m)"
    by (intro record_killed_keeps) auto
  moreover from Cons.prems
  have "\<forall>m \<in> set ms. node_addr m = a \<longrightarrow>
          cluster_node_id m = None \<or> cluster_node_id m = Some []"
    by simp
  ultimately show ?case using Cons.IH by simp
qed

lemma killed_node_ids_last:
  assumes "cluster_nodes = before @ n # after"
    and "node_addr n \<in> killed" and "cluster_node_id n = Some cid" and "cid \<noteq> []"
    and "\<forall>m \<in> set after. node_addr m = node_addr n \<longrightarrow>
           cluster_node_id m = None \<or> cluster_node_id m = Some []"
  shows "(node_addr n, cid) \<in> set (killed_node_ids cluster_nodes killed)"
proof -
  let ?d = "foldl (record_killed killed) [] before"
  from assms(2-4) have "(node_addr n, cid) \<in> set (record_killed killed ?d n)"
    by (simp add: record_killed_def dict_set_mem)
  from foldl_record_killed_keeps [OF this assms(5)]
  show ?thesis by (simp add: killed_node_ids_def assms(1))
qed

lemma killed_node_ids_entry:
  assumes "distinct (map node_addr cluster_nodes)" and "n \<in> set cluster_nodes"
    and "node_addr n \<in> killed" and "cluster_node_id n = Some cid" and "cid \<noteq> []"
  shows "(node_addr n, cid) \<in> set (killed_node_ids cluster_nodes killed)"
proof -
  from assms(2) obtain before after where split: "cluster_nodes = before @ n # after"
    by (auto simp: in_set_conv_decomp)
  with assms(1) have "node_addr n \<notin> node_addr ` set after" by auto
  then have "\<forall>m \<in> set after. node_addr m = node_addr n \<longrightarrow>
               cluster_node_id m = None \<or> cluster_node_id m = Some []"
    by (metis imageI)
  from killed_node_ids_last [OF split assms(3-5) this] show ?thesis .
qed

lemma not_detected_message_inj:
  "not_detected_message a = not_detected_message b \<Longrightarrow> a = b"
  by (simp add: not_detected_message_def)

lemma filter_detection_entries:
  assumes "(a, c) \<in> set kvs" and "distinct (map fst kvs)"
  shows "filter (\<lambda>f. message f = not_detected_message a)
           (concat (map (\<lambda>(k, cid). if D cid then [] else [not_detected_finding k]) kvs)) =
         (if D c then [] else [not_detected_finding a])"
  using assms
proof (induction kvs)
  case Nil
  then show ?case by simp
next
  case (Cons kv kvs)
  obtain k cid where kv: "kv = (k, cid)" by (cases kv)
  have other: "filter (\<lambda>f. message f = not_detected_message a)
           (concat (map (\<lambda>(k, cid). if D cid then [] else [not_detected_finding k]) kvs)) = []"
    if "a \<notin> fst ` set kvs"
    using that
    by (induction kvs) (auto simp: not_detected_finding_def dest: not_detected_message_inj)
  show ?case
  proof (cases "k = a")
    case True
    with Cons.prems kv have "c = cid" and "a \<notin> fst ` set kvs" by (auto simp: rev_image_eqI)
    with True kv other show ?thesis by (simp add: not_detected_finding_def)
  next
    case False
    with Cons.prems kv have "(a, c) \<in> set kvs" and "distinct (map fst kvs)" by auto
    from Cons.IH [OF this] False kv show ?thesis
      by (auto simp: not_detected_finding_def dest: not_detected_message_inj)
  qed
qed

lemma validate_node_messages:
  assumes "f \<in> set (validate_node fs shard_map node)"
  shows "message f \<noteq> not_detected_message a"
  using assms
  by (auto simp: validate_node_def Let_def no_promotion_finding_def wrong_shard_finding_def
        failover_error_finding_def replication_issue_finding_def not_detected_message_def
      split: if_splits option.splits prod.splits dest!: first_match_findings_set)

lemma validate_shard_messages:
  assumes "f \<in> set (validate_shard fs cluster_nodes operations spk sid)"
  shows "message f \<noteq> not_detected_message a"
  using assms
  by (auto simp: validate_shard_def validate_failover_def Let_def split: if_splits
      dest: validate_node_messages)

text \<open>
  Claim C1, as stated, fails when two nodes of the topology have the same address. The
  dictionary keeps one identifier per address, the one of the later node. Below, the
  killed address 127.0.0.1:7000 belongs to \<open>ex_primary\<close> and to a second node; the
  log of the replica, which was not killed, reports the quorum on the identifier of
  \<open>ex_primary\<close>, and the run still reports the address as not detected.
\<close>

theorem failure_detection_duplicate_address:
  "node_addr ex_primary = ''127.0.0.1:7000'' \<and>
   cluster_node_id ex_primary = Some ''07c37dfeb235213a872192d90877d0cd55635b91'' \<and>
   node_addr ex_replica \<notin> {''127.0.0.1:7000''} \<and>
   has_pattern (read_log_tail ex_fs_quorum (log_file ex_replica) 200)
     (quorum_pattern ''07c37dfeb235213a872192d90877d0cd55635b91'') \<and>
   enumerates [1]
     (get_affected_shards [] {''127.0.0.1:7000''} [ex_primary, ex_primary_twin, ex_replica]) \<and>
   validate_affected_shards ex_re_lib [1] ex_fs_quorum [ex_primary, ex_primary_twin, ex_replica]
     [] {''127.0.0.1:7000''} {} =
     Inr \<lparr>success = False,
          findings =
            [\<lparr>f_node_id = ''127.0.0.1:7000'', f_shard_id = - 1, severity = ''error'',
              message = not_detected_message ''127.0.0.1:7000'', log_line = []\<rparr>],
          shards_checked = 1\<rparr>"
  by code_simp

text \<open>
  Claim C1, amended. Take a run that returns a result, and a killed node of the
  topology with a known (non-empty) cluster identifier such that no later node of the
  topology has the same address and a known identifier of its own; with distinct
  addresses this is every killed node with a known identifier. If the 200-line tail of
  the log of some node that was not killed has a line matching the quorum pattern for
  that identifier, the result holds no failure-detection finding for the node's
  address. Otherwise it holds exactly one: an \<open>error\<close> with \<open>shard_id = -1\<close> whose
  \<open>node_id\<close> is the address. The failure-detection findings for an address are the
  findings that carry its message; a missing log file has an empty tail. (The run ends
  with \<^verbatim>\<open>re.error\<close> in place of a result when the pattern of a recorded identifier
  does not compile and a node that was not killed has a log file.)
\<close>

theorem failure_detection_finding_per_killed_node:
  assumes "validate_affected_shards re_lib order fs cluster_nodes operations killed spk = Inr r"
    and "cluster_nodes = before @ n # after"
    and "node_addr n \<in> killed" and "cluster_node_id n = Some cid" and "cid \<noteq> []"
    and "\<forall>m \<in> set after. node_addr m = node_addr n \<longrightarrow>
           cluster_node_id m = None \<or> cluster_node_id m = Some []"
  shows "filter (\<lambda>f. message f = not_detected_message (node_addr n)) (findings r) =
         (if (\<exists>node \<in> set cluster_nodes. node_addr node \<notin> killed \<and>
                (\<exists>line \<in> set (read_log_tail fs (log_file node) 200).
                   quorum_match re_lib cid line))
          then []
          else [\<lparr>f_node_id = node_addr n, f_shard_id = - 1, severity = ''error'',
                 message = not_detected_message (node_addr n), log_line = []\<rparr>])"
proof -
  have item: "(node_addr n, cid) \<in> set (killed_node_ids cluster_nodes killed)"
    using assms(2-6) by (rule killed_node_ids_last)
  from assms(3) have nonempty: "killed \<noteq> {}" by auto
  from run_result [OF assms(1)] obtain detection
    where det: "validate_failure_detection re_lib fs cluster_nodes killed = Inr detection"
      and all: "findings r =
        detection @ concat (map (validate_shard fs cluster_nodes operations spk) order)"
    by blast
  from det nonempty
  have "detection_findings re_lib fs killed cluster_nodes
          (killed_node_ids cluster_nodes killed) = Inr detection"
    by (simp add: validate_failure_detection_def)
  from detection_findings_result [OF this]
  have "filter (\<lambda>f. message f = not_detected_message (node_addr n)) detection =
        (if (\<exists>node \<in> set cluster_nodes. node_addr node \<notin> killed \<and>
                (\<exists>line \<in> set (read_log_tail fs (log_file node) 200).
                   quorum_match re_lib cid line))
         then [] else [not_detected_finding (node_addr n)])"
    by (simp only: filter_detection_entries [OF item killed_node_ids_distinct])
  moreover
  have "filter (\<lambda>f. message f = not_detected_message (node_addr n))
           (concat (map (validate_shard fs cluster_nodes operations spk) order)) = []"
    by (auto simp: filter_empty_conv dest: validate_shard_messages)
  ultimately show ?thesis
    by (simp add: all not_detected_finding_def)
qed

text \<open>
  The primary at 127.0.0.1:7000 is killed. With the replica's log reporting the quorum
  (in capitals) the result has no finding for the address; with no log files at all it
  has exactly one.
\<close>

theorem failure_detection_finding_per_killed_node_witness:
  "(\<exists>r. validate_affected_shards ex_re_lib [1] ex_fs_detected [ex_primary, ex_replica] []
           {''127.0.0.1:7000''} {1} = Inr r \<and>
        filter (\<lambda>f. message f = not_detected_message (node_addr ex_primary)) (findings r) = []) \<and>
   (\<exists>r. validate_affected_shards ex_re_lib [1] no_files [ex_primary, ex_replica] []
           {''127.0.0.1:7000''} {1} = Inr r \<and>
        filter (\<lambda>f. message f = not_detected_message (node_addr ex_primary)) (findings r) =
          [\<lparr>f_node_id = node_addr ex_primary, f_shard_id = - 1, severity = ''error'',
            message = not_detected_message (node_addr ex_primary), log_line = []\<rparr>])"
proof -
  let ?cid = "''07c37dfeb235213a872192d90877d0cd55635b91''"
  have run1: "validate_affected_shards ex_re_lib [1] ex_fs_detected [ex_primary, ex_replica] []
                {''127.0.0.1:7000''} {1} =
              Inr \<lparr>success = True,
                   findings =
                     [\<lparr>f_node_id = ''node-0'', f_shard_id = 1, severity = ''warning'',
                       message = ''Primary has no failover promotion messages in recent logs'',
                       log_line = []\<rparr>],
                   shards_checked = 1\<rparr>"
    by code_simp
  have run2: "validate_affected_shards ex_re_lib [1] no_files [ex_primary, ex_replica] []
                {''127.0.0.1:7000''} {1} =
              Inr \<lparr>success = False,
                   findings =
                     [\<lparr>f_node_id = ''127.0.0.1:7000'', f_shard_id = - 1, severity = ''error'',
                       message = not_detected_message ''127.0.0.1:7000'', log_line = []\<rparr>],
                   shards_checked = 1\<rparr>"
    by code_simp
  have split: "[ex_primary, ex_replica] = [] @ ex_primary # [ex_replica]" by simp
  have killed: "node_addr ex_primary \<in> {''127.0.0.1:7000''}" by code_simp
  have known: "cluster_node_id ex_primary = Some ?cid" "?cid \<noteq> []"
    by (simp_all add: ex_primary_def)
  have later: "\<forall>m \<in> set [ex_replica]. node_addr m = node_addr ex_primary \<longrightarrow>
                 cluster_node_id m = None \<or> cluster_node_id m = Some []"
    by code_simp
  have seen: "\<exists>node \<in> set [ex_primary, ex_replica]. node_addr node \<notin> {''127.0.0.1:7000''} \<and>
                (\<exists>line \<in> set (read_log_tail ex_fs_detected (log_file node) 200).
                   quorum_match ex_re_lib ?cid line)"
    by code_simp
  have unseen: "\<not> (\<exists>node \<in> set [ex_primary, ex_replica]. node_addr node \<notin> {''127.0.0.1:7000''} \<and>
                (\<exists>line \<in> set (read_log_tail no_files (log_file node) 200).
                   quorum_match ex_re_lib ?cid line))"
    by code_simp
  from failure_detection_finding_per_killed_node [OF run1 split killed known later] seen
  have a: "filter (\<lambda>f. message f = not_detected_message (node_addr ex_primary))
             (findings \<lparr>success = True,
                   findings =
                     [\<lparr>f_node_id = ''node-0'', f_shard_id = 1, severity = ''warning'',
                       message = ''Primary has no failover promotion messages in recent logs'',
                       log_line = []\<rparr>],
                   shards_checked = 1\<rparr>) = []"
    by (simp only: if_True)
  from failure_detection_finding_per_killed_node [OF run2 split killed known later] unseen
  have b: "filter (\<lambda>f. message f = not_detected_message (node_addr ex_primary))
             (findings \<lparr>success = False,
                   findings =
                     [\<lparr>f_node_id = ''127.0.0.1:7000'', f_shard_id = - 1, severity = ''error'',
                       message = not_detected_message ''127.0.0.1:7000'', log_line = []\<rparr>],
                   shards_checked = 1\<rparr>) =
           [\<lparr>f_node_id = node_addr ex_primary, f_shard_id = - 1, severity = ''error'',
             message = not_detected_message (node_addr ex_primary), log_line = []\<rparr>]"
    by (simp only: if_False)
  from run1 a run2 b show ?thesis by blast
qed

subsection \<open>Failover errors and promotion evidence\<close>

text \<open>
  Claim C2, as stated, fails. The gate in front of the failover-error patterns is
  computed from the \<open>log_lines\<close> of the node at hand, not from the logs of the
  shard: in shard 1 below, the log of \<open>node-0\<close> has the line of the won election,
  and the validator still reports the expired attempt in the log of \<open>node-1\<close>.
\<close>

theorem failover_error_gate_counterexample:
  "enumerates [1]
     (get_affected_shards [ex_failover_op ''shard-1-primary''] {} [ex_primary, ex_replica]) \<and>
   filter (\<lambda>n. shard_id n = 1) [ex_primary, ex_replica] = [ex_primary, ex_replica] \<and>
   has_promotion (read_log_tail ex_fs_split (log_file ex_primary) 200) \<and>
   validate_affected_shards ex_re_lib [1] ex_fs_split [ex_primary, ex_replica]
     [ex_failover_op ''shard-1-primary''] {} {} =
     Inr \<lparr>success = False,
          findings =
            [\<lparr>f_node_id = ''node-1'', f_shard_id = 1, severity = ''error'',
              message = ''Failover error detected'',
              log_line = ''2:S 01 Jan 2026 10:00:07.300 # Failover attempt expired''\<rparr>],
          shards_checked = 1\<rparr>"
  by code_simp

lemma validate_node_failover_error:
  assumes "f \<in> set (validate_node fs shard_map node)"
    and "message f = ''Failover error detected''"
  shows "\<not> has_promotion (read_log_tail fs (log_file node) 200) \<and>
         f_node_id f = node_id node \<and> f_shard_id f = shard_id node \<and> severity f = ''error''"
  using assms
  by (auto simp: validate_node_def Let_def no_promotion_finding_def wrong_shard_finding_def
        failover_error_finding_def replication_issue_finding_def
      split: if_splits option.splits prod.splits dest!: first_match_findings_set)

lemma validate_shard_failover_error:
  assumes "f \<in> set (validate_shard fs cluster_nodes operations spk sid)"
    and "message f = ''Failover error detected''"
  shows "\<exists>n \<in> set cluster_nodes.
           \<not> has_promotion (read_log_tail fs (log_file n) 200) \<and>
           f_node_id f = node_id n \<and> f_shard_id f = shard_id n \<and> severity f = ''error''"
proof -
  from assms(1) obtain n where n: "n \<in> set cluster_nodes"
    and f: "f \<in> set (validate_node fs
                (valkey_shard_to_our_shard fs (filter (\<lambda>n. shard_id n = sid) cluster_nodes)) n)"
    by (auto simp: validate_shard_def validate_failover_def Let_def split: if_splits)
  from validate_node_failover_error [OF f assms(2)] n show ?thesis by blast
qed

text \<open>
  Claim C2, amended: the gate is per node. Every failover-error finding of the result
  of a run is an \<open>error\<close> that names a node of the topology (by \<open>node_id\<close> and
  \<open>shard_id\<close>) whose own 200-line tail matches no promotion-success pattern; so no
  failover-error finding is made from the log of a node whose own tail has promotion
  evidence, whatever the other nodes of its shard logged.
\<close>

theorem failover_error_gate_per_node:
  assumes "validate_affected_shards re_lib order fs cluster_nodes operations killed spk = Inr r"
    and "f \<in> set (findings r)"
    and "message f = ''Failover error detected''"
  shows "\<exists>n \<in> set cluster_nodes.
           f_node_id f = node_id n \<and> f_shard_id f = shard_id n \<and> severity f = ''error'' \<and>
           \<not> has_promotion (read_log_tail fs (log_file n) 200)"
proof -
  from run_result [OF assms(1)] obtain detection
    where det: "validate_failure_detection re_lib fs cluster_nodes killed = Inr detection"
      and all: "findings r =
        detection @ concat (map (validate_shard fs cluster_nodes operations spk) order)"
    by blast
  from assms(2) all consider
    (detection) "f \<in> set detection"
    | (failover) sid where "f \<in> set (validate_shard fs cluster_nodes operations spk sid)"
    by auto
  then show ?thesis
  proof cases
    case detection
    with validate_failure_detection_set [OF det] obtain addr
      where "f = not_detected_finding addr" by blast
    with assms(3) show ?thesis
      by (simp add: not_detected_finding_def not_detected_message_def)
  next
    case failover
    from validate_shard_failover_error [OF failover assms(3)] show ?thesis by blast
  qed
qed

theorem failover_error_gate_per_node_witness:
  "\<exists>n \<in> set [ex_primary, ex_replica].
     ''node-1'' = node_id n \<and> 1 = shard_id n \<and>
     \<not> has_promotion (read_log_tail ex_fs_split (log_file n) 200)"
proof -
  let ?f = "\<lparr>f_node_id = ''node-1'', f_shard_id = 1, severity = ''error'',
             message = ''Failover error detected'',
             log_line = ''2:S 01 Jan 2026 10:00:07.300 # Failover attempt expired''\<rparr>"
  have run: "validate_affected_shards ex_re_lib [1] ex_fs_split [ex_primary, ex_replica]
               [ex_failover_op ''shard-1-primary''] {} {} =
             Inr \<lparr>success = False, findings = [?f], shards_checked = 1\<rparr>"
    by code_simp
  have mem: "?f \<in> set (findings \<lparr>success = False, findings = [?f], shards_checked = 1\<rparr>)"
    by simp
  have msg: "message ?f = ''Failover error detected''" by simp
  from failover_error_gate_per_node [OF run mem msg] show ?thesis by simp
qed

subsection \<open>Affected shards\<close>

lemma affected_by_op_union:
  "affected_by_op cluster_nodes S op = S \<union> affected_by_op cluster_nodes {} op"
  by (simp add: affected_by_op_def Let_def split: option.splits)

lemma foldl_affected_by_op:
  "foldl (affected_by_op cluster_nodes) S ops =
     S \<union> (\<Union>op \<in> set ops. affected_by_op cluster_nodes {} op)"
proof (induction ops arbitrary: S)
  case Nil
  show ?case by simp
next
  case (Cons op ops)
  have "foldl (affected_by_op cluster_nodes) S (op # ops) =
          affected_by_op cluster_nodes S op \<union>
          (\<Union>op \<in> set ops. affected_by_op cluster_nodes {} op)"
    by (simp add: Cons.IH)
  also have "\<dots> = S \<union> (\<Union>op \<in> set (op # ops). affected_by_op cluster_nodes {} op)"
    using affected_by_op_union [of cluster_nodes S op] by auto
  finally show ?case .
qed

lemma foldl_affected_by_chaos:
  "foldl (affected_by_chaos killed) S nodes =
     S \<union> shard_id ` {n \<in> set nodes. node_addr n \<in> killed}"
  by (induction nodes arbitrary: S) (auto simp: affected_by_chaos_def)

lemma get_affected_shards_eq:
  "get_affected_shards operations killed cluster_nodes =
     (\<Union>op \<in> set operations. affected_by_op cluster_nodes {} op) \<union>
     shard_id ` {n \<in> set cluster_nodes. node_addr n \<in> killed}"
  by (simp add: get_affected_shards_def foldl_affected_by_op foldl_affected_by_chaos)

lemma finite_affected_by_op: "finite (affected_by_op cluster_nodes {} op)"
  by (simp add: affected_by_op_def Let_def split: option.splits)

lemma finite_get_affected_shards:
  "finite (get_affected_shards operations killed cluster_nodes)"
  by (simp add: get_affected_shards_eq finite_affected_by_op)

text \<open>
  A target that the \<open>node_id\<close> table maps to a shard other than 0 resolves to
  that shard, whatever the other two tables hold.
\<close>

lemma lookup_target_node_id_nonzero:
  assumes "node_id_to_shard cluster_nodes t = Some sid" and "sid \<noteq> 0"
  shows "lookup_target cluster_nodes t = Some sid"
  using assms by (simp add: lookup_target_def py_or_def)

text \<open>
  Claim C3 holds of a target whose \<open>node_id\<close> entry is a shard other than 0, and
  breaks on shard 0: the three lookups are chained with \<^verbatim>\<open>or\<close>, which passes
  over the integer 0 as it passes over \<^verbatim>\<open>None\<close>. A failover on \<open>node-2\<close>, a node
  of shard 0 that is in the \<open>node_id\<close> table only, resolves to no shard at all, and
  the target \<open>7001\<close>, which the \<open>node_id\<close> table maps to shard 0 and the port table
  to shard 1, resolves to shard 1.
\<close>

theorem lookup_target_skips_shard_zero:
  "node_id_to_shard [ex_zero, ex_primary, ex_replica] ''node-2'' = Some 0 \<and>
   lookup_target [ex_zero, ex_primary, ex_replica] ''node-2'' = None \<and>
   get_affected_shards [ex_failover_op ''node-2''] {} [ex_zero, ex_primary, ex_replica] = {} \<and>
   shard_had_failover 0 [ex_failover_op ''node-2''] [ex_zero, ex_primary, ex_replica] = False \<and>
   node_id_to_shard [ex_zero_port_named, ex_primary, ex_replica] ''7001'' = Some 0 \<and>
   port_to_shard [ex_zero_port_named, ex_primary, ex_replica] ''7001'' = Some 1 \<and>
   lookup_target [ex_zero_port_named, ex_primary, ex_replica] ''7001'' = Some 1 \<and>
   get_affected_shards [ex_failover_op ''7001''] {}
     [ex_zero_port_named, ex_primary, ex_replica] = {1}"
  by code_simp

subsection \<open>The result record\<close>

text \<open>
  Claim C4. The \<open>success\<close> field of the result of a run is true exactly when no
  finding of the result has severity \<open>error\<close>. So a run whose findings are all
  warnings succeeds, and a run with an \<open>error\<close> finding does not.
\<close>

theorem success_iff_no_error:
  assumes "validate_affected_shards re_lib order fs cluster_nodes operations killed spk = Inr r"
  shows "(success r = (\<forall>f \<in> set (findings r). severity f \<noteq> ''error'')) \<and>
         ((\<forall>f \<in> set (findings r). severity f = ''warning'') \<longrightarrow> success r) \<and>
         ((\<exists>f \<in> set (findings r). severity f = ''error'') \<longrightarrow> \<not> success r)"
proof -
  from run_result [OF assms]
  have "success r = (length (filter (\<lambda>f. severity f = ''error'') (findings r)) = 0)"
    by blast
  then have iff: "success r = (\<forall>f \<in> set (findings r). severity f \<noteq> ''error'')"
    by (simp add: filter_empty_conv)
  have "(\<forall>f \<in> set (findings r). severity f = ''warning'') \<longrightarrow> success r"
    unfolding iff by auto
  moreover have "(\<exists>f \<in> set (findings r). severity f = ''error'') \<longrightarrow> \<not> success r"
    unfolding iff by auto
  ultimately show ?thesis using iff by blast
qed

text \<open>
  A run with one warning (the replica reconfigured itself) succeeds; the run with the
  expired failover attempt does not.
\<close>

theorem success_iff_no_error_witness:
  "(\<exists>r. validate_affected_shards ex_re_lib [1] ex_fs_churn [ex_primary, ex_replica]
           [ex_failover_op ''node-1''] {} {} = Inr r \<and>
        map severity (findings r) = [''warning''] \<and> success r) \<and>
   (\<exists>r. validate_affected_shards ex_re_lib [1] ex_fs_split [ex_primary, ex_replica]
           [ex_failover_op ''shard-1-primary''] {} {} = Inr r \<and>
        map severity (findings r) = [''error''] \<and> \<not> success r)"
proof -
  let ?w = "\<lparr>f_node_id = ''node-1'', f_shard_id = 1, severity = ''warning'',
       message = ''Replication topology issue detected'',
       log_line = ''2:S 01 Jan 2026 10:00:08.000 * I'm a sub-replica! Reconfiguring myself as a replica of 07c3''\<rparr>"
  let ?e = "\<lparr>f_node_id = ''node-1'', f_shard_id = 1, severity = ''error'',
             message = ''Failover error detected'',
             log_line = ''2:S 01 Jan 2026 10:00:07.300 # Failover attempt expired''\<rparr>"
  let ?warned = "\<lparr>success = True, findings = [?w], shards_checked = 1\<rparr>"
  let ?failed = "\<lparr>success = False, findings = [?e], shards_checked = 1\<rparr>"
  have run1: "validate_affected_shards ex_re_lib [1] ex_fs_churn [ex_primary, ex_replica]
                [ex_failover_op ''node-1''] {} {} = Inr ?warned"
    by code_simp
  have run2: "validate_affected_shards ex_re_lib [1] ex_fs_split [ex_primary, ex_replica]
                [ex_failover_op ''shard-1-primary''] {} {} = Inr ?failed"
    by code_simp
  have all_warnings: "\<forall>f \<in> set (findings ?warned). severity f = ''warning''"
    by simp
  have an_error: "\<exists>f \<in> set (findings ?failed). severity f = ''error''"
    by simp
  from success_iff_no_error [OF run1, THEN conjunct2, THEN conjunct1, THEN mp, OF all_warnings]
  have a: "success ?warned" .
  from success_iff_no_error [OF run2, THEN conjunct2, THEN conjunct2, THEN mp, OF an_error]
  have b: "\<not> success ?failed" .
  have c: "map severity (findings ?warned) = [''warning'']"
          "map severity (findings ?failed) = [''error'']"
    by simp_all
  from run1 a c(1) have "\<exists>r. validate_affected_shards ex_re_lib [1] ex_fs_churn
           [ex_primary, ex_replica] [ex_failover_op ''node-1''] {} {} = Inr r \<and>
        map severity (findings r) = [''warning''] \<and> success r"
    by (intro exI [of _ ?warned] conjI)
  moreover
  from run2 b c(2) have "\<exists>r. validate_affected_shards ex_re_lib [1] ex_fs_split
           [ex_primary, ex_replica] [ex_failover_op ''shard-1-primary''] {} {} = Inr r \<and>
        map severity (findings r) = [''error''] \<and> \<not> success r"
    by (intro exI [of _ ?failed] conjI)
  ultimately show ?thesis by (rule conjI)
qed

text \<open>
  Claim C8. The \<open>shards_checked\<close> field of the result of a run is the number of
  affected shards, and the affected shards are the shards that the operations resolve
  to together with the shards of the killed nodes. Neither the findings nor the
  presence of a shard in the topology enters.
\<close>

theorem shards_checked_card_affected:
  assumes "validate_affected_shards re_lib order fs cluster_nodes operations killed spk = Inr r"
  shows "shards_checked r = card (get_affected_shards operations killed cluster_nodes) \<and>
         get_affected_shards operations killed cluster_nodes =
           (\<Union>op \<in> set operations. affected_by_op cluster_nodes {} op) \<union>
           shard_id ` {n \<in> set cluster_nodes. node_addr n \<in> killed}"
proof -
  from run_result [OF assms]
  have "shards_checked r = card (get_affected_shards operations killed cluster_nodes)"
    by blast
  then show ?thesis
    using get_affected_shards_eq [of operations killed cluster_nodes] by (rule conjI)
qed

text \<open>
  A failover on \<open>shard-7-primary\<close> in a cluster without a shard 7: one shard is
  checked, and nothing is found.
\<close>

theorem shards_checked_card_affected_witness:
  "validate_affected_shards ex_re_lib [7] no_files [ex_primary, ex_replica]
     [ex_failover_op ''shard-7-primary''] {} {} =
     Inr \<lparr>success = True, findings = [], shards_checked = 1\<rparr> \<and>
   filter (\<lambda>n. shard_id n = 7) [ex_primary, ex_replica] = [] \<and>
   card (get_affected_shards [ex_failover_op ''shard-7-primary''] {} [ex_primary, ex_replica]) = 1"
proof (intro conjI)
  show run: "validate_affected_shards ex_re_lib [7] no_files [ex_primary, ex_replica]
     [ex_failover_op ''shard-7-primary''] {} {} =
     Inr \<lparr>success = True, findings = [], shards_checked = 1\<rparr>"
    by code_simp
  show "filter (\<lambda>n. shard_id n = 7) [ex_primary, ex_replica] = []"
    by code_simp
  from shards_checked_card_affected [OF run, THEN conjunct1]
  show "card (get_affected_shards [ex_failover_op ''shard-7-primary''] {}
          [ex_primary, ex_replica]) = 1"
    by simp
qed

text \<open>
  Claim C9. A finding of the result of a run whose \<open>shard_id\<close> is not -1 carries the
  shard id of some node of the supplied topology.
\<close>

theorem finding_shard_in_topology:
  assumes "validate_affected_shards re_lib order fs cluster_nodes operations killed spk = Inr r"
  shows "\<forall>f \<in> set (findings r).
           f_shard_id f \<noteq> - 1 \<longrightarrow> (\<exists>n \<in> set cluster_nodes. shard_id n = f_shard_id f)"
proof (intro ballI impI)
  fix f
  assume mem: "f \<in> set (findings r)" and scoped: "f_shard_id f \<noteq> - 1"
  from run_result [OF assms] obtain detection
    where det: "validate_failure_detection re_lib fs cluster_nodes killed = Inr detection"
      and all: "findings r =
        detection @ concat (map (validate_shard fs cluster_nodes operations spk) order)"
    by blast
  from mem all consider
    (detection) "f \<in> set detection"
    | (failover) sid where "f \<in> set (validate_shard fs cluster_nodes operations spk sid)"
    by auto
  then show "\<exists>n \<in> set cluster_nodes. shard_id n = f_shard_id f"
  proof cases
    case detection
    with validate_failure_detection_set [OF det] obtain addr
      where "f = not_detected_finding addr" by blast
    with scoped show ?thesis by (simp add: not_detected_finding_def)
  next
    case failover
    from validate_shard_ids [OF failover] show ?thesis by auto
  qed
qed

theorem finding_shard_in_topology_witness:
  "\<exists>n \<in> set [ex_primary, ex_replica]. shard_id n = 1"
proof -
  let ?f = "\<lparr>f_node_id = ''node-1'', f_shard_id = 1, severity = ''error'',
             message = ''Failover error detected'',
             log_line = ''2:S 01 Jan 2026 10:00:07.300 # Failover attempt expired''\<rparr>"
  have run: "validate_affected_shards ex_re_lib [1] ex_fs_split [ex_primary, ex_replica]
               [ex_failover_op ''shard-1-primary''] {} {} =
             Inr \<lparr>success = False, findings = [?f], shards_checked = 1\<rparr>"
    by code_simp
  have mem: "?f \<in> set (findings \<lparr>success = False, findings = [?f], shards_checked = 1\<rparr>)"
    by simp
  have scoped: "f_shard_id ?f \<noteq> - 1" by simp
  from finding_shard_in_topology [OF run, THEN bspec, OF mem, THEN mp, OF scoped]
  show ?thesis by simp
qed

subsection \<open>Shard-pattern targets\<close>

lemma shard_x_primary:
  "str_contains ''shard-'' ''shard-x-primary''"
  "split CHR ''-'' ''shard-x-primary'' = [''shard'', ''x'', ''primary'']"
  "py_int ''x'' = None"
  by code_simp+

lemma shard_7_primary:
  "str_contains ''shard-'' ''shard-7-primary''"
  "split CHR ''-'' ''shard-7-primary'' = [''shard'', ''7'', ''primary'']"
  "py_int ''7'' = Some 7"
  by code_simp+

lemma affected_by_op_shard_x:
  "affected_by_op cluster_nodes S \<lparr>op_type = ty, target_node = ''shard-x-primary''\<rparr> = S"
  by (simp add: affected_by_op_def shard_x_primary)

lemma affected_by_op_shard_7:
  "affected_by_op cluster_nodes S \<lparr>op_type = ty, target_node = ''shard-7-primary''\<rparr> =
     insert 7 S"
  by (simp add: affected_by_op_def shard_7_primary)

lemma shard_had_failover_skip_x:
  "shard_had_failover sid
     (ops1 @ \<lparr>op_type = ty, target_node = ''shard-x-primary''\<rparr> # ops2) cluster_nodes =
   shard_had_failover sid (ops1 @ ops2) cluster_nodes"
  by (induction ops1) (auto simp: shard_x_primary Let_def split: option.splits)

lemma validate_shard_skip_x:
  "validate_shard fs cluster_nodes
     (ops1 @ \<lparr>op_type = ty, target_node = ''shard-x-primary''\<rparr> # ops2) spk =
   validate_shard fs cluster_nodes (ops1 @ ops2) spk"
  by (rule ext) (simp add: validate_shard_def shard_had_failover_skip_x)

text \<open>
  Claim C7. An operation on \<open>shard-7-primary\<close>, of any type and anywhere among the
  operations, puts shard 7 into the affected set, whatever the topology. An operation
  on \<open>shard-x-primary\<close> is skipped: \<^verbatim>\<open>int('x')\<close> raises, the error is caught, and
  the affected set and the whole outcome of the run (its result, or the error of the
  failure-detection check) are what they are without the operation, so it adds no
  shard and no finding and raises nothing.
\<close>

theorem shard_pattern_targets:
  "7 \<in> get_affected_shards (ops1 @ \<lparr>op_type = ty, target_node = ''shard-7-primary''\<rparr> # ops2)
          killed cluster_nodes \<and>
   get_affected_shards (ops1 @ \<lparr>op_type = ty, target_node = ''shard-x-primary''\<rparr> # ops2)
     killed cluster_nodes = get_affected_shards (ops1 @ ops2) killed cluster_nodes \<and>
   validate_affected_shards re_lib order fs cluster_nodes
     (ops1 @ \<lparr>op_type = ty, target_node = ''shard-x-primary''\<rparr> # ops2) killed spk =
   validate_affected_shards re_lib order fs cluster_nodes (ops1 @ ops2) killed spk"
proof (intro conjI)
  show "7 \<in> get_affected_shards
               (ops1 @ \<lparr>op_type = ty, target_node = ''shard-7-primary''\<rparr> # ops2)
               killed cluster_nodes"
    by (simp add: get_affected_shards_eq affected_by_op_shard_7)
  show same: "get_affected_shards
                (ops1 @ \<lparr>op_type = ty, target_node = ''shard-x-primary''\<rparr> # ops2)
                killed cluster_nodes = get_affected_shards (ops1 @ ops2) killed cluster_nodes"
    by (simp add: get_affected_shards_eq affected_by_op_shard_x)
  show "validate_affected_shards re_lib order fs cluster_nodes
          (ops1 @ \<lparr>op_type = ty, target_node = ''shard-x-primary''\<rparr> # ops2) killed spk =
        validate_affected_shards re_lib order fs cluster_nodes (ops1 @ ops2) killed spk"
    by (simp only: validate_affected_shards_def same validate_shard_skip_x)
qed

text \<open>
  On the two-node cluster, which has no shard 7: the first operation alone makes the
  affected set hold 7, the second alone leaves it empty and the run returns a result
  without findings.
\<close>

theorem shard_pattern_targets_witness:
  "7 \<in> get_affected_shards [ex_failover_op ''shard-7-primary''] {} [ex_primary, ex_replica] \<and>
   get_affected_shards [ex_failover_op ''shard-x-primary''] {} [ex_primary, ex_replica] = {} \<and>
   validate_affected_shards ex_re_lib [] ex_fs_split [ex_primary, ex_replica]
     [ex_failover_op ''shard-x-primary''] {} {} =
     Inr \<lparr>success = True, findings = [], shards_checked = 0\<rparr>"
proof -
  have none: "get_affected_shards [] {} [ex_primary, ex_replica] = {}"
    by code_simp
  have quiet: "validate_affected_shards ex_re_lib [] ex_fs_split [ex_primary, ex_replica]
                 [] {} {} = Inr \<lparr>success = True, findings = [], shards_checked = 0\<rparr>"
    by code_simp
  from shard_pattern_targets [of "[]" "''failover''" "[]" "{}" "[ex_primary, ex_replica]"
      ex_re_lib "[]" ex_fs_split "{}"] none quiet
  show ?thesis by (simp only: ex_failover_op_def append_Nil simp_thms)
qed

subsection \<open>Targets of shard 0\<close>

lemma foldl_node_id_other:
  "k \<notin> node_id ` set ns \<Longrightarrow>
     foldl (\<lambda>m node. m(node_id node \<mapsto> shard_id node)) m ns k = m k"
  by (induction ns arbitrary: m) auto

text \<open>
  The \<open>node_id\<close> table maps a harness id to the shard of the last node of the
  topology that carries it.
\<close>

lemma node_id_to_shard_last:
  assumes "cluster_nodes = before @ n # after" and "node_id n \<notin> node_id ` set after"
  shows "node_id_to_shard cluster_nodes (node_id n) = Some (shard_id n)"
proof -
  let ?m = "foldl (\<lambda>m node. m(node_id node \<mapsto> shard_id node)) Map.empty before"
  from assms(2)
  have "foldl (\<lambda>m node. m(node_id node \<mapsto> shard_id node))
          (?m(node_id n \<mapsto> shard_id n)) after (node_id n) =
        (?m(node_id n \<mapsto> shard_id n)) (node_id n)"
    by (rule foldl_node_id_other)
  then show ?thesis by (simp add: node_id_to_shard_def assms(1) del: fun_upd_apply) simp
qed

lemma node_id_to_shard_distinct:
  assumes "distinct (map node_id cluster_nodes)" and "n \<in> set cluster_nodes"
  shows "node_id_to_shard cluster_nodes (node_id n) = Some (shard_id n)"
proof -
  from assms(2) obtain before after where split: "cluster_nodes = before @ n # after"
    by (auto simp: in_set_conv_decomp)
  with assms(1) have "node_id n \<notin> node_id ` set after" by auto
  with split show ?thesis by (rule node_id_to_shard_last)
qed

text \<open>
  Claim C10, as stated, fails when a later node of the topology carries the same
  harness id: the table keeps the later node's shard. Below, \<open>node-2\<close> is the id of
  \<open>ex_zero\<close>, a node of shard 0, the target is in neither of the other two tables,
  and the lookup stops at the \<open>node_id\<close> table with shard 1, which the operation
  adds to the affected set.
\<close>

theorem node_id_of_shard_zero_duplicate_id:
  "node_id ex_zero = ''node-2'' \<and> shard_id ex_zero = 0 \<and>
   target_node (ex_failover_op ''node-2'') = ''node-2'' \<and>
   \<not> str_contains ''shard-'' ''node-2'' \<and>
   port_to_shard [ex_zero, ex_zero_twin] ''node-2'' = None \<and>
   cluster_id_to_shard [ex_zero, ex_zero_twin] ''node-2'' = None \<and>
   node_id_to_shard [ex_zero, ex_zero_twin] ''node-2'' = Some 1 \<and>
   lookup_target [ex_zero, ex_zero_twin] ''node-2'' = Some 1 \<and>
   get_affected_shards [ex_failover_op ''node-2''] {} [ex_zero, ex_zero_twin] = {1}"
  by code_simp

text \<open>
  Claim C10, amended. Take an operation whose target does not contain \<open>shard-\<close> and is
  the harness id of a node of shard 0 of the topology, with no later node of the
  topology carrying the same id (with distinct node ids: of any node of shard 0). The
  lookup does not stop at the \<open>node_id\<close> table: its result is the \<^verbatim>\<open>or\<close> of the
  port and \<open>cluster_node_id\<close> lookups. If neither of those tables has the target, the
  operation adds nothing to the affected set, and alone it leaves the set empty, so it
  does not mark shard 0.
\<close>

theorem node_id_of_shard_zero_falls_through:
  assumes "cluster_nodes = before @ n # after"
    and "node_id n = target_node op" and "shard_id n = 0"
    and "target_node op \<notin> node_id ` set after"
    and "\<not> str_contains ''shard-'' (target_node op)"
  shows "lookup_target cluster_nodes (target_node op) =
           py_or (port_to_shard cluster_nodes (target_node op))
             (cluster_id_to_shard cluster_nodes (target_node op)) \<and>
         (port_to_shard cluster_nodes (target_node op) = None \<and>
          cluster_id_to_shard cluster_nodes (target_node op) = None \<longrightarrow>
            affected_by_op cluster_nodes S op = S \<and>
            get_affected_shards [op] {} cluster_nodes = {})"
proof -
  from assms(2,4) have "node_id n \<notin> node_id ` set after" by simp
  from node_id_to_shard_last [OF assms(1) this] assms(2,3)
  have "node_id_to_shard cluster_nodes (target_node op) = Some 0" by simp
  with assms(5) show ?thesis
    by (simp add: lookup_target_def py_or_def affected_by_op_def get_affected_shards_eq)
qed

text \<open>A failover on \<open>node-2\<close>, the node of shard 0, marks no shard.\<close>

theorem node_id_of_shard_zero_falls_through_witness:
  "node_id ex_zero = ''node-2'' \<and> shard_id ex_zero = 0 \<and>
   lookup_target [ex_zero, ex_primary, ex_replica] ''node-2'' = None \<and>
   get_affected_shards [ex_failover_op ''node-2''] {} [ex_zero, ex_primary, ex_replica] = {}"
proof -
  have tgt: "target_node (ex_failover_op ''node-2'') = ''node-2''"
    by (simp add: ex_failover_op_def)
  have split: "[ex_zero, ex_primary, ex_replica] = [] @ ex_zero # [ex_primary, ex_replica]"
    by simp
  have a: "node_id ex_zero = target_node (ex_failover_op ''node-2'')"
    by code_simp
  have z: "shard_id ex_zero = 0"
    by (simp add: ex_zero_def)
  have later: "target_node (ex_failover_op ''node-2'') \<notin> node_id ` set [ex_primary, ex_replica]"
    by code_simp
  have b: "\<not> str_contains ''shard-'' (target_node (ex_failover_op ''node-2''))"
    by code_simp
  have c: "port_to_shard [ex_zero, ex_primary, ex_replica]
             (target_node (ex_failover_op ''node-2'')) = None"
    by code_simp
  have d: "cluster_id_to_shard [ex_zero, ex_primary, ex_replica]
             (target_node (ex_failover_op ''node-2'')) = None"
    by code_simp
  have e: "node_id ex_zero = ''node-2''"
    by (simp add: ex_zero_def)
  from node_id_of_shard_zero_falls_through [OF split a z later b, of "{}"] c d
  have "lookup_target [ex_zero, ex_primary, ex_replica] ''node-2'' = None \<and>
        get_affected_shards [ex_failover_op ''node-2''] {} [ex_zero, ex_primary, ex_replica] = {}"
    by (simp only: tgt py_or_def option.case simp_thms)
  with e z show ?thesis by (simp only: simp_thms)
qed

subsection \<open>Replication issues\<close>

text \<open>
  Claim C6, as stated, fails: the validator collects all matching lines and then makes
  one finding from the first of them. The replica's log below has two lines with the
  sub-replica message, and the run reports one warning.
\<close>

theorem sub_replica_two_lines_one_warning:
  "length (filter (re_search True (lits ''I'm a sub-replica! Reconfiguring myself''))
     (read_log_tail ex_fs_churn (log_file ex_replica) 200)) = 2 \<and>
   enumerates [1]
     (get_affected_shards [ex_failover_op ''node-1''] {} [ex_primary, ex_replica]) \<and>
   validate_affected_shards ex_re_lib [1] ex_fs_churn [ex_primary, ex_replica]
     [ex_failover_op ''node-1''] {} {} =
     Inr \<lparr>success = True,
          findings =
            [\<lparr>f_node_id = ''node-1'', f_shard_id = 1, severity = ''warning'',
              message = ''Replication topology issue detected'',
              log_line = ''2:S 01 Jan 2026 10:00:08.000 * I'm a sub-replica! Reconfiguring myself as a replica of 07c3''\<rparr>],
          shards_checked = 1\<rparr>"
  by code_simp

lemma filter_first_match_findings_same:
  assumes "\<And>m. P (mk m)"
  shows "filter P (first_match_findings mk ls ps) = first_match_findings mk ls ps"
  using assms by (auto simp: first_match_findings_def filter_id_conv split: list.splits)

lemma filter_first_match_findings_none:
  assumes "\<And>m. \<not> P (mk m)"
  shows "filter P (first_match_findings mk ls ps) = []"
  using assms by (auto simp: first_match_findings_def filter_empty_conv split: list.splits)

lemma replication_issue_findings:
  "filter (\<lambda>f. message f = ''Replication topology issue detected'')
     (validate_node fs shard_map node) =
   (case find_all_patterns (read_log_tail fs (log_file node) 200)
           (lits ''I'm a sub-replica! Reconfiguring myself'') of
      [] \<Rightarrow> []
    | m # ms \<Rightarrow> [replication_issue_finding node m])"
proof (cases "path_exists fs (log_file node)")
  case False
  then have "read_log_tail fs (log_file node) 200 = []"
    by (rule read_log_tail_absent)
  with False show ?thesis by (simp add: validate_node_def find_all_patterns_def)
next
  case True
  have a: "filter (\<lambda>f. message f = ''Replication topology issue detected'')
             (first_match_findings (failover_error_finding node) ls ps) = []" for ls ps
    by (rule filter_first_match_findings_none) (simp add: failover_error_finding_def)
  have b: "filter (\<lambda>f. message f = ''Replication topology issue detected'')
             (first_match_findings (replication_issue_finding node) ls ps) =
           first_match_findings (replication_issue_finding node) ls ps" for ls ps
    by (rule filter_first_match_findings_same) (simp add: replication_issue_finding_def)
  have c: "first_match_findings mk ls replication_issue_patterns =
           (case find_all_patterns ls (lits ''I'm a sub-replica! Reconfiguring myself'') of
              [] \<Rightarrow> [] | m # ms \<Rightarrow> [mk m])" for mk and ls
    by (simp add: first_match_findings_def replication_issue_patterns_def)
  from True show ?thesis
    by (simp add: validate_node_def Let_def a b c no_promotion_finding_def
          wrong_shard_finding_def replication_issue_finding_def
        split: option.splits prod.splits list.splits)
qed

text \<open>
  Claim C6, amended. During the failover validation of a node, the replication-issue
  findings depend only on the node's 200-line tail, not on the promotion outcome: when
  \<open>k\<close> lines of the tail match the sub-replica pattern there is one \<open>warning\<close> if
  \<open>k \<ge> 1\<close> and none if \<open>k = 0\<close>, and the warning carries the first matching line,
  stripped of surrounding white space.
\<close>

theorem replication_issue_one_warning:
  "filter (\<lambda>f. message f = ''Replication topology issue detected'')
     (validate_node fs shard_map node) =
   (case filter (re_search True (lits ''I'm a sub-replica! Reconfiguring myself''))
           (read_log_tail fs (log_file node) 200) of
      [] \<Rightarrow> []
    | line # others \<Rightarrow>
        [\<lparr>f_node_id = node_id node, f_shard_id = shard_id node, severity = ''warning'',
          message = ''Replication topology issue detected'', log_line = strip line\<rparr>])"
  by (simp add: replication_issue_findings find_all_patterns_def replication_issue_finding_def
      split: list.splits)

theorem replication_issue_one_warning_witness:
  "filter (\<lambda>f. message f = ''Replication topology issue detected'')
     (validate_node ex_fs_churn Map.empty ex_replica) =
   [\<lparr>f_node_id = ''node-1'', f_shard_id = 1, severity = ''warning'',
     message = ''Replication topology issue detected'',
     log_line = ''2:S 01 Jan 2026 10:00:08.000 * I'm a sub-replica! Reconfiguring myself as a replica of 07c3''\<rparr>]"
proof -
  have "(case filter (re_search True (lits ''I'm a sub-replica! Reconfiguring myself''))
           (read_log_tail ex_fs_churn (log_file ex_replica) 200) of
      [] \<Rightarrow> []
    | line # others \<Rightarrow>
        [\<lparr>f_node_id = node_id ex_replica, f_shard_id = shard_id ex_replica,
          severity = ''warning'',
          message = ''Replication topology issue detected'', log_line = strip line\<rparr>]) =
   [\<lparr>f_node_id = ''node-1'', f_shard_id = 1, severity = ''warning'',
     message = ''Replication topology issue detected'',
     log_line = ''2:S 01 Jan 2026 10:00:08.000 * I'm a sub-replica! Reconfiguring myself as a replica of 07c3''\<rparr>]"
    by code_simp
  with replication_issue_one_warning [of ex_fs_churn Map.empty ex_replica]
  show ?thesis by (rule trans)
qed

subsection \<open>Letter case\<close>

lemma of_char_int_range: "0 \<le> (of_char c :: int) \<and> (of_char c :: int) < 256"
proof -
  have m: "(of_char c :: int) mod 256 = of_char c" by simp
  have "0 \<le> x mod 256 \<and> x mod 256 < 256" for x :: int
    by simp
  from this [of "of_char c"] show ?thesis unfolding m .
qed

lemma of_char_py_lower:
  "(of_char (py_lower c) :: int) =
     (if (65 \<le> (of_char c :: int) \<and> (of_char c :: int) \<le> 90) \<or>
         (192 \<le> (of_char c :: int) \<and> (of_char c :: int) \<le> 222 \<and> (of_char c :: int) \<noteq> 215)
      then of_char c + 32 else of_char c)"
  using of_char_int_range [of c] by (simp add: py_lower_def Let_def)

lemma py_lower_idem: "py_lower (py_lower c) = py_lower c"
  by (rule of_char_eqI [where ?'a = int]) (simp add: of_char_py_lower)

lemma py_lower_newline: "(py_lower x = CHR 0x0A) = (x = CHR 0x0A)"
proof -
  have "(py_lower x = CHR 0x0A) = ((of_char (py_lower x) :: int) = of_char (CHR 0x0A))"
    by (simp only: of_char_eq_iff)
  also have "\<dots> = ((of_char x :: int) = of_char (CHR 0x0A))"
    by (simp add: of_char_py_lower)
  also have "\<dots> = (x = CHR 0x0A)"
    by (simp only: of_char_eq_iff)
  finally show ?thesis .
qed

lemma py_lower_digit: "is_digit (py_lower x) = is_digit x"
  by (simp add: is_digit_def Let_def of_char_py_lower)

lemma class_match_lower: "class_match True c (py_lower x) = class_match True c x"
  by (cases c) (simp_all add: fold_case_def py_lower_idem py_lower_newline py_lower_digit)

lemma match_here_lower: "match_here True p (map py_lower s) = match_here True p s"
  by (induction "True" p s rule: match_here.induct) (simp_all add: class_match_lower)

lemma re_search_lower: "re_search True p (map py_lower s) = re_search True p s"
proof (induction s)
  case Nil
  show ?case by simp
next
  case (Cons x xs)
  have "match_here True p (map py_lower (x # xs)) = match_here True p (x # xs)"
    by (rule match_here_lower)
  with Cons show ?case by simp
qed

lemma re_search_same_lower:
  assumes "map py_lower line = map py_lower line'"
  shows "re_search True p line = re_search True p line'"
proof -
  have "re_search True p line = re_search True p (map py_lower line)"
    by (simp only: re_search_lower)
  also have "\<dots> = re_search True p line'"
    by (simp only: assms re_search_lower)
  finally show ?thesis .
qed

text \<open>
  Claim C5, as stated, fails for two of its six categories. The searches for the
  shard-formation line and for the self-promotion line call \<^verbatim>\<open>re.search\<close>
  without \<^verbatim>\<open>re.IGNORECASE\<close>: a line that differs from a matching line only in
  letter case is not a match.
\<close>

theorem shard_token_search_case_sensitive:
  "map py_lower ex_formation_line_caps = map py_lower ex_formation_line \<and>
   first_shard_token ''is now part of shard '' [ex_formation_line] =
     Some (ex_formation_line, ''0123456789abcdef0123456789abcdef01234567'') \<and>
   first_shard_token ''is now part of shard '' [ex_formation_line_caps] = None \<and>
   map py_lower ex_promotion_line_caps = map py_lower ex_promotion_line \<and>
   first_shard_token ''Setting myself to primary in shard '' [ex_promotion_line] =
     Some (ex_promotion_line, ''0123456789abcdef0123456789abcdef01234567'') \<and>
   first_shard_token ''Setting myself to primary in shard '' [ex_promotion_line_caps] = None"
  by code_simp

text \<open>
  Claim C5, amended: the matches made through \<^verbatim>\<open>_has_pattern\<close> and
  \<^verbatim>\<open>_find_all_patterns\<close>, which are the categories quorum failure detection,
  promotion success, failover error and sub-replica reconfiguration, are line-local and
  case-insensitive. For a pattern of these categories, replacing a line of a log by a
  line that differs from it only in letter case changes neither whether the log has
  the pattern nor how many of its lines match, and a log has the pattern exactly when
  one of its lines, taken alone, has it. (The shard-formation and self-promotion
  searches are line-local and case-sensitive.)
\<close>

theorem ignorecase_categories_case_insensitive:
  assumes "p \<in> set (quorum_pattern cid # failover_promotion_patterns @
                     failover_error_patterns @ replication_issue_patterns)"
    and "map py_lower line = map py_lower line'"
  shows "has_pattern (before @ line # after) p = has_pattern (before @ line' # after) p \<and>
         length (find_all_patterns (before @ line # after) p) =
           length (find_all_patterns (before @ line' # after) p) \<and>
         has_pattern log_lines p = (\<exists>l \<in> set log_lines. has_pattern [l] p)"
proof -
  from assms(2) have "re_search True p line = re_search True p line'"
    by (rule re_search_same_lower)
  then show ?thesis
    by (simp add: has_pattern_def find_all_patterns_def list_ex_iff)
qed

text \<open>The quorum line in capitals is a match, as the line in the cluster's spelling is.\<close>

theorem ignorecase_categories_case_insensitive_witness:
  "has_pattern [ex_quorum_line] (quorum_pattern ''07c37dfeb235213a872192d90877d0cd55635b91'') \<and>
   has_pattern [ex_quorum_line_caps] (quorum_pattern ''07c37dfeb235213a872192d90877d0cd55635b91'')"
proof -
  have cat: "quorum_pattern ''07c37dfeb235213a872192d90877d0cd55635b91''
               \<in> set (quorum_pattern ''07c37dfeb235213a872192d90877d0cd55635b91'' #
                      failover_promotion_patterns @ failover_error_patterns @
                      replication_issue_patterns)"
    by (rule list.set_intros(1))
  have same: "map py_lower ex_quorum_line = map py_lower ex_quorum_line_caps"
    by code_simp
  have plain: "has_pattern [ex_quorum_line]
                 (quorum_pattern ''07c37dfeb235213a872192d90877d0cd55635b91'')"
    by code_simp
  from ignorecase_categories_case_insensitive [OF cat same, of "[]" "[]", THEN conjunct1] plain
  have "has_pattern [ex_quorum_line_caps]
          (quorum_pattern ''07c37dfeb235213a872192d90877d0cd55635b91'')"
    by (simp only: append_Nil)
  with plain show ?thesis by (rule conjI)
qed


end
